theory Spec2Isabelle
  imports Complex_Main
begin

section \<open>Python values used by the pipeline\<close>

text \<open>
  Exceptions are values. \<open>ExternalError\<close> stands for any exception raised inside a
  library call (numpy, scipy, onnxruntime, torch).
\<close>

datatype error = ValueError | RuntimeError | ZeroDivisionError | ExternalError

text \<open>
  Python's \<open>round\<close> on a float rounds half to even.
\<close>

definition py_round :: "real \<Rightarrow> int" where
  "py_round x =
     (let f = \<lfloor>x\<rfloor>; d = x - of_int f
      in if d < 1 / 2 then f
         else if 1 / 2 < d then f + 1
         else if even f then f else f + 1)"

text \<open>
  Rounding to a binary floating-point format: \<open>float_round p emin x\<close> is the number with
  a significand of \<open>p + 1\<close> bits nearest to \<open>x\<close>, ties going to the even significand;
  below \<open>2^emin\<close> the numbers are subnormal, spaced \<open>2^(emin - p)\<close> apart. Formats have
  no largest number here: overflow to infinity is not modelled. \<open>float64_round\<close> rounds
  to binary64, the format of a Python float, and \<open>is_float64\<close> holds of the binary64
  values.
\<close>

definition float_round :: "nat \<Rightarrow> int \<Rightarrow> real \<Rightarrow> real" where
  "float_round p emin x =
     (if x = 0 then 0
      else (let e = max emin \<lfloor>log 2 \<bar>x\<bar>\<rfloor>;
                ulp = 2 powr (real_of_int e - real p)
            in real_of_int (py_round (x / ulp)) * ulp))"

definition float64_round :: "real \<Rightarrow> real" where
  "float64_round x = float_round 52 (- 1022) x"

definition is_float64 :: "real \<Rightarrow> bool" where
  "is_float64 x = (float64_round x = x)"

text \<open>
  \<open>range(start, stop, step)\<close>: a zero step raises \<open>ValueError\<close>, a positive step counts
  up while below \<open>stop\<close>, a negative step counts down while above it.
\<close>

function range_up :: "int \<Rightarrow> int \<Rightarrow> int \<Rightarrow> int list" where
  "range_up i stop step =
     (if 0 < step \<and> i < stop then i # range_up (i + step) stop step else [])"
  by pat_completeness auto
termination
  by (relation "measure (\<lambda>(i, stop, step). nat (stop - i))") auto

function range_down :: "int \<Rightarrow> int \<Rightarrow> int \<Rightarrow> int list" where
  "range_down i stop step =
     (if step < 0 \<and> stop < i then i # range_down (i + step) stop step else [])"
  by pat_completeness auto
termination
  by (relation "measure (\<lambda>(i, stop, step). nat (i - stop))") auto

definition py_range :: "int \<Rightarrow> int \<Rightarrow> int \<Rightarrow> error + int list" where
  "py_range start stop step =
     (if step = 0 then Inl ValueError
      else if 0 < step then Inr (range_up start stop step)
      else Inr (range_down start stop step))"

text \<open>
  A slice bound of a sequence of length \<open>n\<close>: a negative bound counts from the end, and
  every bound is clipped to \<open>0 .. n\<close>. \<open>xs[i:j]\<close> and \<open>xs[i:]\<close> follow.
\<close>

definition slice_bound :: "int \<Rightarrow> nat \<Rightarrow> nat" where
  "slice_bound i n = (if i < 0 then nat (max 0 (i + int n)) else min (nat i) n)"

definition py_slice :: "'a list \<Rightarrow> int \<Rightarrow> int \<Rightarrow> 'a list" where
  "py_slice xs i j =
     (let a = slice_bound i (length xs); b = slice_bound j (length xs)
      in take (b - a) (drop a xs))"

definition py_slice_from :: "'a list \<Rightarrow> int \<Rightarrow> 'a list" where
  "py_slice_from xs i = drop (slice_bound i (length xs)) xs"

text \<open>
  Python floats. Rounding is not modelled: a finite float is a real number. The special
  values are kept, since the pipeline uses not-a-number as a sentinel and minus infinity
  as the level of an empty signal. Every comparison with \<open>NaN\<close> is false.
\<close>

datatype pyfloat = Num real | PInf | NInf | NaN

fun fl_less :: "pyfloat \<Rightarrow> pyfloat \<Rightarrow> bool" where
  "fl_less (Num a) (Num b) = (a < b)"
| "fl_less NaN _ = False"
| "fl_less _ NaN = False"
| "fl_less PInf _ = False"
| "fl_less _ PInf = True"
| "fl_less _ NInf = False"
| "fl_less NInf _ = True"

definition fl_le :: "pyfloat \<Rightarrow> pyfloat \<Rightarrow> bool" where
  "fl_le a b = (a \<noteq> NaN \<and> b \<noteq> NaN \<and> (a = b \<or> fl_less a b))"

definition isnan :: "pyfloat \<Rightarrow> bool" where
  "isnan x = (x = NaN)"

text \<open>
  Arithmetic on floats: addition, multiplication by a finite constant, absolute value and
  the exponential. Python's \<open>max(a, b)\<close> returns \<open>a\<close> unless \<open>b > a\<close>, and \<open>min(a, b)\<close>
  returns \<open>a\<close> unless \<open>b < a\<close>, so a not-a-number first argument comes back unchanged.
\<close>

fun fl_add :: "pyfloat \<Rightarrow> pyfloat \<Rightarrow> pyfloat" where
  "fl_add (Num a) (Num b) = Num (a + b)"
| "fl_add NaN _ = NaN"
| "fl_add _ NaN = NaN"
| "fl_add PInf NInf = NaN"
| "fl_add NInf PInf = NaN"
| "fl_add PInf _ = PInf"
| "fl_add _ PInf = PInf"
| "fl_add NInf _ = NInf"
| "fl_add _ NInf = NInf"

definition fl_scale :: "real \<Rightarrow> pyfloat \<Rightarrow> pyfloat" where
  "fl_scale c x =
     (case x of
        Num r \<Rightarrow> Num (c * r)
      | PInf \<Rightarrow> (if 0 < c then PInf else if c < 0 then NInf else NaN)
      | NInf \<Rightarrow> (if 0 < c then NInf else if c < 0 then PInf else NaN)
      | NaN \<Rightarrow> NaN)"

definition fl_sub :: "pyfloat \<Rightarrow> pyfloat \<Rightarrow> pyfloat" where
  "fl_sub a b = fl_add a (fl_scale (- 1) b)"

definition fl_abs :: "pyfloat \<Rightarrow> pyfloat" where
  "fl_abs x = (case x of Num r \<Rightarrow> Num \<bar>r\<bar> | PInf \<Rightarrow> PInf | NInf \<Rightarrow> PInf | NaN \<Rightarrow> NaN)"

definition fl_exp :: "pyfloat \<Rightarrow> pyfloat" where
  "fl_exp x = (case x of Num r \<Rightarrow> Num (exp r) | PInf \<Rightarrow> PInf | NInf \<Rightarrow> Num 0 | NaN \<Rightarrow> NaN)"

definition py_max :: "pyfloat \<Rightarrow> pyfloat \<Rightarrow> pyfloat" where
  "py_max a b = (if fl_less a b then b else a)"

definition py_min :: "pyfloat \<Rightarrow> pyfloat \<Rightarrow> pyfloat" where
  "py_min a b = (if fl_less b a then b else a)"

definition clamp :: "pyfloat \<Rightarrow> real \<Rightarrow> real \<Rightarrow> pyfloat" where
  "clamp x lo hi = py_min (py_max x (Num lo)) (Num hi)"

text \<open>
  A dictionary from indicator names to floats, and \<open>d.get(key, default)\<close>.
\<close>

type_synonym indicators = "string \<rightharpoonup> pyfloat"

definition dict_get :: "indicators \<Rightarrow> string \<Rightarrow> pyfloat \<Rightarrow> pyfloat" where
  "dict_get d k dflt = (case d k of None \<Rightarrow> dflt | Some v \<Rightarrow> v)"

section \<open>windowing.py\<close>

text \<open>
  Samples are float32 values. Windowing only copies samples and pads with zeros, so the
  functions are polymorphic in the sample type; \<open>astype(float32).reshape(-1)\<close> is the
  identity on a flat float32 sequence.
\<close>

definition sec_to_samples :: "real \<Rightarrow> int \<Rightarrow> int" where
  "sec_to_samples sec sample_rate = py_round (sec * of_int sample_rate)"

definition estimate_num_windows :: "int \<Rightarrow> int \<Rightarrow> int \<Rightarrow> int" where
  "estimate_num_windows num_samples window_samples hop_samples =
     (if num_samples \<le> 0 \<or> window_samples \<le> 0 \<or> hop_samples \<le> 0 then 0
      else if num_samples < window_samples then 1
      else 1 + (num_samples - window_samples) div hop_samples)"

definition window_params :: "int \<Rightarrow> real \<Rightarrow> real \<Rightarrow> error + (int \<times> int)" where
  "window_params sample_rate window_sec hop_sec =
     (let window_samples = sec_to_samples window_sec sample_rate;
          hop_samples = sec_to_samples hop_sec sample_rate
      in if window_samples \<le> 0 then Inl ValueError
         else if hop_samples \<le> 0 then Inl ValueError
         else Inr (window_samples, hop_samples))"

text \<open>
  \<open>iter_windows\<close> is a generator; the model returns the list of everything it yields, or
  the exception that \<open>range\<close> raises before the first window of the loop.
\<close>

definition iter_windows :: "'a::zero list \<Rightarrow> int \<Rightarrow> int \<Rightarrow> error + (int \<times> 'a list) list" where
  "iter_windows audio window_samples hop_samples =
     (if length audio = 0 then Inr []
      else if int (length audio) < window_samples then
        Inr [(0, audio @ replicate (nat window_samples - length audio) 0)]
      else
        (case py_range 0 (int (length audio) - window_samples + 1) hop_samples of
           Inl e \<Rightarrow> Inl e
         | Inr starts \<Rightarrow>
             Inr (map (\<lambda>start. (start, py_slice audio start (start + window_samples))) starts)))"

text \<open>
  \<open>StreamWindow\<close> and the state of a \<open>StreamWindowProcessor\<close>. The constructor raises
  \<open>ValueError\<close> for a window or hop of no samples.
\<close>

record 'a StreamWindow =
  sw_start_sample :: int
  sw_samples :: "'a list"

record 'a StreamWindowProcessor =
  swp_sample_rate :: int
  swp_window_samples :: int
  swp_hop_samples :: int
  swp_buffer :: "'a list"
  swp_buffer_start :: int
  swp_total_samples :: int
  swp_next_window_start :: int

definition StreamWindowProcessor_init ::
    "int \<Rightarrow> real \<Rightarrow> real \<Rightarrow> error + 'a StreamWindowProcessor" where
  "StreamWindowProcessor_init sample_rate window_sec hop_sec =
     (let window_samples = sec_to_samples window_sec sample_rate;
          hop_samples = sec_to_samples hop_sec sample_rate
      in if window_samples \<le> 0 then Inl ValueError
         else if hop_samples \<le> 0 then Inl ValueError
         else Inr \<lparr>swp_sample_rate = sample_rate,
                   swp_window_samples = window_samples,
                   swp_hop_samples = hop_samples,
                   swp_buffer = [],
                   swp_buffer_start = 0,
                   swp_total_samples = 0,
                   swp_next_window_start = 0\<rparr>)"

text \<open>
  The \<open>while\<close> loop of \<open>push\<close>, with the list of windows collected so far. The loop has
  no bound of its own, so it is a partial function: \<open>None\<close> is a loop that never ends.
\<close>

partial_function (option) push_loop ::
    "'a StreamWindowProcessor \<Rightarrow> 'a StreamWindow list
      \<Rightarrow> ('a StreamWindow list \<times> 'a StreamWindowProcessor) option" where
  "push_loop p windows =
     (if swp_next_window_start p + swp_window_samples p \<le> swp_total_samples p then
        (let start_offset = swp_next_window_start p - swp_buffer_start p;
             p1 = (if start_offset < 0
                   then p\<lparr>swp_next_window_start := swp_buffer_start p\<rparr> else p);
             start_offset1 = (if start_offset < 0 then 0 else start_offset);
             end_offset = start_offset1 + swp_window_samples p1
         in if int (length (swp_buffer p1)) < end_offset then Some (windows, p1)
            else push_loop
                   (p1\<lparr>swp_next_window_start :=
                         swp_next_window_start p1 + swp_hop_samples p1\<rparr>)
                   (windows @
                     [\<lparr>sw_start_sample = swp_next_window_start p1,
                       sw_samples = py_slice (swp_buffer p1) start_offset1 end_offset\<rparr>]))
      else Some (windows, p))"

declare push_loop.simps [code]

definition push ::
    "'a StreamWindowProcessor \<Rightarrow> 'a list
      \<Rightarrow> ('a StreamWindow list \<times> 'a StreamWindowProcessor) option" where
  "push p samples =
     (if length samples = 0 then Some ([], p)
      else
        (case push_loop
                (p\<lparr>swp_buffer := swp_buffer p @ samples,
                   swp_total_samples := swp_total_samples p + int (length samples)\<rparr>) [] of
           None \<Rightarrow> None
         | Some (windows, p2) \<Rightarrow>
             (let trim = max 0 (swp_next_window_start p2 - swp_buffer_start p2)
              in if 0 < trim
                 then Some (windows,
                        p2\<lparr>swp_buffer := py_slice_from (swp_buffer p2) trim,
                           swp_buffer_start := swp_buffer_start p2 + trim\<rparr>)
                 else Some (windows, p2))))"

text \<open>
  Streaming segmentation of a signal that arrives in chunks: one processor, one \<open>push\<close>
  per chunk in order, the emitted windows concatenated. \<open>stream_segmentation\<close> builds the
  processor from the configuration and returns the \<open>(start_sample, samples)\<close> pairs.
\<close>

fun push_chunks ::
    "'a StreamWindowProcessor \<Rightarrow> 'a list list
      \<Rightarrow> ('a StreamWindow list \<times> 'a StreamWindowProcessor) option" where
  "push_chunks p [] = Some ([], p)"
| "push_chunks p (c # cs) =
     (case push p c of
        None \<Rightarrow> None
      | Some (ws, p1) \<Rightarrow>
          (case push_chunks p1 cs of
             None \<Rightarrow> None
           | Some (ws', p2) \<Rightarrow> Some (ws @ ws', p2)))"

definition stream_segmentation ::
    "int \<Rightarrow> real \<Rightarrow> real \<Rightarrow> 'a list list \<Rightarrow> error + (int \<times> 'a list) list option" where
  "stream_segmentation sample_rate window_sec hop_sec chunks =
     (case StreamWindowProcessor_init sample_rate window_sec hop_sec of
        Inl e \<Rightarrow> Inl e
      | Inr p \<Rightarrow>
          Inr (map_option (\<lambda>(ws, p'). map (\<lambda>w. (sw_start_sample w, sw_samples w)) ws)
                 (push_chunks p chunks)))"

section \<open>vad.py\<close>

text \<open>
  \<open>rms_db\<close> takes \<open>eps\<close> as a keyword argument with default \<open>1e-12\<close>; \<open>is_speech_window\<close>
  calls it with the default. \<open>np.log10\<close> is minus infinity at zero and not-a-number
  below zero.
\<close>

definition mean :: "real list \<Rightarrow> real" where
  "mean xs = sum_list xs / real (length xs)"

definition np_log10 :: "real \<Rightarrow> pyfloat" where
  "np_log10 x = (if 0 < x then Num (log 10 x) else if x = 0 then NInf else NaN)"

definition rms_db :: "real list \<Rightarrow> real \<Rightarrow> pyfloat" where
  "rms_db audio eps =
     (if length audio = 0 then NInf
      else (let rms = sqrt (mean (map (\<lambda>x. x * x) audio))
            in fl_scale 20 (np_log10 (rms + eps))))"

definition default_eps :: real where
  "default_eps = 1 / 10 ^ 12"

definition is_speech_window :: "real list \<Rightarrow> pyfloat \<Rightarrow> bool" where
  "is_speech_window audio threshold_db = fl_less threshold_db (rms_db audio default_eps)"

text \<open>
  A window of \<open>n\<close> samples holding \<open>periods\<close> whole periods of a pure sine tone at peak
  amplitude 1 and phase \<open>phase\<close>: sample \<open>k\<close> is \<open>sin (2 \<pi> periods k / n + phase)\<close>.
\<close>

definition sine_tone :: "nat \<Rightarrow> nat \<Rightarrow> real \<Rightarrow> real list" where
  "sine_tone periods n phase =
     map (\<lambda>k. sin (2 * pi * real periods * real k / real n + phase)) [0..<n]"

section \<open>inference/heuristic.py\<close>

text \<open>
  The three explanation strings of \<open>heuristic_reasons\<close> (low high-frequency energy, low
  spectral roll-off, low spectral flatness) are the constructors of \<open>reason\<close>.
  \<open>sigmoid x\<close> is \<open>1 / (1 + exp (-x))\<close>; its denominator is at least 1, infinite or
  not-a-number, never zero.
\<close>

datatype reason = LowHfEnergy | LowRolloff | LowFlatness

definition sigmoid :: "pyfloat \<Rightarrow> pyfloat" where
  "sigmoid x =
     (case fl_add (Num 1) (fl_exp (fl_scale (- 1) x)) of
        Num r \<Rightarrow> Num (1 / r)
      | PInf \<Rightarrow> Num 0
      | NInf \<Rightarrow> Num 0
      | NaN \<Rightarrow> NaN)"

definition heuristic_reasons :: "indicators \<Rightarrow> reason list" where
  "heuristic_reasons ind =
     (let hf_ratio = dict_get ind ''hf_energy_ratio'' (Num 0);
          rolloff_hz = dict_get ind ''spectral_rolloff_hz'' (Num 0);
          flatness = dict_get ind ''spectral_flatness'' (Num 0)
      in (if fl_less hf_ratio (Num (2 / 100)) then [LowHfEnergy] else [])
         @ (if fl_less rolloff_hz (Num 3200) then [LowRolloff] else [])
         @ (if fl_less flatness (Num (8 / 100)) then [LowFlatness] else []))"

definition heuristic_p_fake :: "indicators \<Rightarrow> pyfloat \<times> reason list" where
  "heuristic_p_fake ind =
     (let hf_ratio = dict_get ind ''hf_energy_ratio'' (Num 0);
          rolloff_hz = dict_get ind ''spectral_rolloff_hz'' (Num 0);
          flatness = dict_get ind ''spectral_flatness'' (Num 0);
          cutoff_score = clamp (fl_scale (1 / (6 / 100)) (fl_sub (Num (6 / 100)) hf_ratio)) 0 1;
          rolloff_score = clamp (fl_scale (1 / 4200) (fl_sub (Num 4200) rolloff_hz)) 0 1;
          flat_score = clamp (fl_scale (1 / (12 / 100)) (fl_sub (Num (12 / 100)) flatness)) 0 1;
          raw = fl_add (fl_add (fl_scale (50 / 100) cutoff_score)
                               (fl_scale (35 / 100) rolloff_score))
                       (fl_scale (15 / 100) flat_score);
          p_fake = sigmoid (fl_scale 7 (fl_sub raw (Num (35 / 100))));
          reasons = heuristic_reasons ind
      in (clamp p_fake 0 1, reasons))"

section \<open>dsp/resample.py and preprocess.py\<close>

text \<open>
  Samples are real numbers and the arithmetic of the pipeline is not rounded. The
  conversion \<open>astype(float32)\<close> is modelled in \<open>dsp/resample.py\<close>, \<open>preprocess.py\<close> and
  \<open>dsp/enhance.py\<close>, through which every array enters the engine: \<open>float32_round\<close>
  rounds a real number to the nearest float32 value. \<open>normalize_audio\<close> converts an array
  that \<open>resample_audio\<close> has converted already.
\<close>

definition float32_round :: "real \<Rightarrow> real" where
  "float32_round x = float_round 23 (- 126) x"

definition astype_float32 :: "real list \<Rightarrow> real list" where
  "astype_float32 audio = map float32_round audio"

definition is_float32 :: "real \<Rightarrow> bool" where
  "is_float32 x = (float32_round x = x)"

text \<open>
  The library code that the pipeline calls is a parameter of the model, collected in one
  record: scipy's \<open>resample_poly\<close> (absent when scipy cannot be imported), the FFT-based
  part of \<open>spectral_indicators\<close>, the scipy and numpy calls of the enhancer, and the
  predictions of the two model backends, which may raise. \<open>'e\<close> is the type of scipy's
  filter data (coefficients and filter states). \<open>ext_sosfilt_zi sos x0\<close> is
  \<open>sosfilt_zi(sos) * x0\<close>; \<open>ext_sosfilt sos state x\<close> is \<open>sosfilt(sos, x, zi=state)\<close>, which
  returns the filtered signal and the new state or raises; \<open>ext_fft_mag\<close> is the
  magnitude of the windowed FFT; \<open>ext_spectral_subtract strength noise_mag x\<close> is the
  spectral subtraction of \<open>NoiseReducer.reduce\<close>. \<open>ext_onnx_predict\<close> takes the
  peak-normalised audio and stands for the log-mel spectrogram followed by
  \<open>OnnxModel.predict\<close>; \<open>ext_hf_predict\<close> returns \<open>(p_fake, model_confidence)\<close>.
\<close>

record 'e externals =
  ext_resample_poly :: "(real list \<Rightarrow> int \<Rightarrow> int \<Rightarrow> error + real list) option"
  ext_spectral :: "real list \<Rightarrow> int \<Rightarrow> indicators"
  ext_sosfilt_zi :: "'e \<Rightarrow> real \<Rightarrow> 'e"
  ext_sosfilt :: "'e \<Rightarrow> 'e \<Rightarrow> real list \<Rightarrow> error + (real list \<times> 'e)"
  ext_fft_mag :: "real list \<Rightarrow> real list"
  ext_spectral_subtract :: "real \<Rightarrow> real list \<Rightarrow> real list \<Rightarrow> real list"
  ext_onnx_predict :: "real list \<Rightarrow> error + pyfloat"
  ext_hf_predict :: "real list \<Rightarrow> int \<Rightarrow> error + (pyfloat \<times> pyfloat)"

text \<open>
  \<open>resample_audio\<close> converts its input to float32 first. Equal rates then return before
  scipy is imported.
\<close>

definition resample_audio ::
    "'e externals \<Rightarrow> real list \<Rightarrow> int \<Rightarrow> int \<Rightarrow> error + real list" where
  "resample_audio ext audio orig_sr target_sr =
     (let audio32 = astype_float32 audio
      in if orig_sr = target_sr then Inr audio32
         else
           (case ext_resample_poly ext of
              None \<Rightarrow> Inl RuntimeError
            | Some resample_poly \<Rightarrow>
                (let g = gcd orig_sr target_sr;
                     up = target_sr div g;
                     down = orig_sr div g
                 in if length audio32 = 0 then Inr audio32
                    else
                      (case resample_poly audio32 up down of
                         Inl e \<Rightarrow> Inl e
                       | Inr resampled \<Rightarrow> Inr (astype_float32 resampled)))))"

text \<open>
  An input array is one-dimensional, two-dimensional (a list of frames, each with at
  least one channel) or of another shape. \<open>to_mono\<close> averages the channels of each frame
  and converts to float32.
\<close>

datatype ndarray = Arr1 "real list" | Arr2 "real list list" | ArrN

definition to_mono :: "ndarray \<Rightarrow> error + real list" where
  "to_mono audio =
     (case audio of
        Arr1 xs \<Rightarrow> Inr (astype_float32 xs)
      | Arr2 frames \<Rightarrow> Inr (astype_float32 (map mean frames))
      | ArrN \<Rightarrow> Inl ValueError)"

definition normalize_audio :: "real list \<Rightarrow> real \<Rightarrow> real list" where
  "normalize_audio audio peak =
     (let centred = (if length audio \<noteq> 0 then map (\<lambda>x. x - mean audio) audio else audio);
          max_abs = (if length centred \<noteq> 0 then Max (set (map abs centred)) else 0)
      in if max_abs \<le> 0 then centred
         else map (\<lambda>x. (x / max_abs) * peak) centred)"

definition preprocess_audio ::
    "'e externals \<Rightarrow> ndarray \<Rightarrow> int \<Rightarrow> int \<Rightarrow> bool \<Rightarrow> error + real list" where
  "preprocess_audio ext audio orig_sr target_sr normalise =
     (case to_mono audio of
        Inl e \<Rightarrow> Inl e
      | Inr audio_mono \<Rightarrow>
          (case resample_audio ext audio_mono orig_sr target_sr of
             Inl e \<Rightarrow> Inl e
           | Inr audio_rs \<Rightarrow>
               Inr (if normalise then normalize_audio audio_rs (99 / 100) else audio_rs)))"

section \<open>features.py\<close>

text \<open>
  \<open>zero_crossing_rate\<close> compares the sign bits of neighbouring samples. For a non-empty
  signal \<open>spectral_indicators\<close> divides by the sample rate (\<open>ZeroDivisionError\<close> at rate
  zero); its numeric result is the external \<open>ext_spectral\<close>.
\<close>

definition zero_crossing_rate :: "real list \<Rightarrow> real" where
  "zero_crossing_rate audio =
     (if length audio < 2 then 0
      else mean (map (\<lambda>(a, b). if (a < 0) \<noteq> (b < 0) then 1 else 0)
                   (zip (tl audio) (butlast audio))))"

definition spectral_indicators :: "'e externals \<Rightarrow> real list \<Rightarrow> int \<Rightarrow> error + indicators" where
  "spectral_indicators ext audio sample_rate =
     (if length audio = 0 then
        Inr [''spectral_centroid_hz'' \<mapsto> Num 0, ''spectral_bandwidth_hz'' \<mapsto> Num 0,
             ''spectral_rolloff_hz'' \<mapsto> Num 0, ''hf_energy_ratio'' \<mapsto> Num 0,
             ''spectral_flatness'' \<mapsto> Num 0]
      else if sample_rate = 0 then Inl ZeroDivisionError
      else Inr (ext_spectral ext audio sample_rate))"

definition extract_indicators :: "'e externals \<Rightarrow> real list \<Rightarrow> int \<Rightarrow> error + indicators" where
  "extract_indicators ext audio sample_rate =
     (case spectral_indicators ext audio sample_rate of
        Inl e \<Rightarrow> Inl e
      | Inr spectral \<Rightarrow>
          Inr ([''rms_db'' \<mapsto> rms_db audio default_eps,
                ''zcr'' \<mapsto> Num (zero_crossing_rate audio)] ++ spectral))"

section \<open>dsp/enhance.py\<close>

text \<open>
  The state of an \<open>AudioEnhancer\<close> with its \<open>NoiseReducer\<close>: the two switches of the
  configuration, the strength and the averaging weight of the noise reducer, the
  band-pass filter (designed by the constructor exactly when \<open>bandpass\<close> is set), the
  filter state and the noise profile. The cached Hann window is left out.
\<close>

record 'e AudioEnhancer =
  enh_bandpass :: bool
  enh_noise_reduction :: bool
  enh_noise_strength :: real
  enh_noise_ema :: real
  enh_sos :: "'e option"
  enh_sos_state :: "'e option"
  enh_noise_mag :: "real list option"

definition enhancer_reset :: "'e AudioEnhancer \<Rightarrow> 'e AudioEnhancer" where
  "enhancer_reset enh = enh\<lparr>enh_sos_state := None, enh_noise_mag := None\<rparr>"

text \<open>
  \<open>_apply_bandpass\<close>: without a filter the audio is returned, converted to float32; a
  missing filter state is started from the first sample, or from 0 for an empty signal;
  then \<open>sosfilt\<close> runs on the signal, empty or not. When \<open>sosfilt\<close> raises, the
  exception leaves \<open>infer_window\<close>, and the state of the enhancer after it is not
  modelled.
\<close>

definition apply_bandpass ::
    "'e externals \<Rightarrow> 'e AudioEnhancer \<Rightarrow> real list
      \<Rightarrow> error + (real list \<times> 'e AudioEnhancer)" where
  "apply_bandpass ext enh audio =
     (case enh_sos enh of
        None \<Rightarrow> Inr (astype_float32 audio, enh)
      | Some sos \<Rightarrow>
          (let x = astype_float32 audio;
               state = (case enh_sos_state enh of
                          None \<Rightarrow> ext_sosfilt_zi ext sos (if length x \<noteq> 0 then hd x else 0)
                        | Some st \<Rightarrow> st)
           in case ext_sosfilt ext sos state x of
                Inl e \<Rightarrow> Inl e
              | Inr (y, state') \<Rightarrow>
                  Inr (astype_float32 y, enh\<lparr>enh_sos_state := Some state'\<rparr>)))"

definition update_profile ::
    "'e externals \<Rightarrow> 'e AudioEnhancer \<Rightarrow> real list \<Rightarrow> 'e AudioEnhancer" where
  "update_profile ext enh audio =
     (if length audio = 0 then enh
      else
        (let mag = ext_fft_mag ext audio
         in case enh_noise_mag enh of
              None \<Rightarrow> enh\<lparr>enh_noise_mag := Some mag\<rparr>
            | Some noise_mag \<Rightarrow>
                (if length noise_mag \<noteq> length mag then enh\<lparr>enh_noise_mag := Some mag\<rparr>
                 else enh\<lparr>enh_noise_mag :=
                        Some (map (\<lambda>(old, new). (1 - enh_noise_ema enh) * old
                                                 + enh_noise_ema enh * new)
                                (zip noise_mag mag))\<rparr>)))"

definition update_noise ::
    "'e externals \<Rightarrow> 'e AudioEnhancer \<Rightarrow> real list \<Rightarrow> error + 'e AudioEnhancer" where
  "update_noise ext enh audio =
     (if \<not> enh_noise_reduction enh then Inr enh
      else
        (case (if enh_bandpass enh then apply_bandpass ext enh audio else Inr (audio, enh)) of
           Inl e \<Rightarrow> Inl e
         | Inr (x, enh1) \<Rightarrow> Inr (update_profile ext enh1 x)))"

definition noise_reduce :: "'e externals \<Rightarrow> 'e AudioEnhancer \<Rightarrow> real list \<Rightarrow> real list" where
  "noise_reduce ext enh audio =
     (if length audio = 0 then audio
      else
        (case enh_noise_mag enh of
           None \<Rightarrow> audio
         | Some noise_mag \<Rightarrow>
             (if length noise_mag \<noteq> length (ext_fft_mag ext audio) then audio
              else astype_float32
                     (ext_spectral_subtract ext (enh_noise_strength enh) noise_mag
                        audio))))"

definition enhancer_process ::
    "'e externals \<Rightarrow> 'e AudioEnhancer \<Rightarrow> real list
      \<Rightarrow> error + (real list \<times> 'e AudioEnhancer)" where
  "enhancer_process ext enh audio =
     (let x0 = astype_float32 audio
      in case (if enh_bandpass enh then apply_bandpass ext enh x0 else Inr (x0, enh)) of
           Inl e \<Rightarrow> Inl e
         | Inr (x, enh1) \<Rightarrow>
             Inr (astype_float32
                    (if enh_noise_reduction enh then noise_reduce ext enh1 x else x),
                  enh1))"

section \<open>engine.py\<close>

text \<open>
  \<open>InferenceResult\<close>, and the state of a \<open>VoiceGuardEngine\<close>. The backend in use is one
  of the three strings \<open>heuristic\<close>, \<open>onnx\<close> and \<open>hf\<close>. \<open>eng_backend_calls\<close> is not a field
  of the source: it counts the calls of an inference backend (\<open>heuristic_p_fake\<close>,
  \<open>OnnxModel.predict\<close>, \<open>HfAudioClassifier.predict\<close>), so that a property can say that
  none was made.
\<close>

record InferenceResult =
  ir_p_fake :: pyfloat
  ir_p_fake_smooth :: pyfloat
  ir_confidence :: pyfloat
  ir_is_speech :: bool
  ir_indicators :: indicators
  ir_reasons :: "reason list"

datatype backend = Heuristic | Onnx | Hf

record 'e VoiceGuardEngine =
  eng_backend_in_use :: backend
  eng_backend_note :: string
  eng_onnx_loaded :: bool
  eng_hf_loaded :: bool
  eng_target_sr :: int
  eng_ema_alpha :: real
  eng_ema :: "pyfloat option"
  eng_rms_db_threshold :: real
  eng_enhancer :: "'e AudioEnhancer option"
  eng_backend_calls :: nat

definition reset_state :: "'e externals \<Rightarrow> 'e VoiceGuardEngine \<Rightarrow> 'e VoiceGuardEngine" where
  "reset_state ext eng =
     eng\<lparr>eng_ema := None,
         eng_enhancer := map_option enhancer_reset (eng_enhancer eng)\<rparr>"

text \<open>
  The first lines of \<open>infer_window\<close>, up to the voice-activity gate: the preprocessed
  audio, its indicators, the level read from them and the verdict \<open>is_speech\<close>.
\<close>

definition vad_gate ::
    "'e externals \<Rightarrow> 'e VoiceGuardEngine \<Rightarrow> ndarray \<Rightarrow> int
      \<Rightarrow> error + (real list \<times> indicators \<times> pyfloat \<times> bool)" where
  "vad_gate ext eng audio orig_sr =
     (case preprocess_audio ext audio orig_sr (eng_target_sr eng) False of
        Inl e \<Rightarrow> Inl e
      | Inr audio_rs \<Rightarrow>
          (case extract_indicators ext audio_rs (eng_target_sr eng) of
             Inl e \<Rightarrow> Inl e
           | Inr raw_indicators \<Rightarrow>
               (let level = dict_get raw_indicators ''rms_db'' NInf;
                    is_speech = fl_less (Num (eng_rms_db_threshold eng)) level
                in Inr (audio_rs, raw_indicators, level, is_speech))))"

text \<open>
  The backend call of a speech window: the probability, the reasons, the model's
  confidence, and the engine with one more backend call counted.
\<close>

definition run_backend ::
    "'e externals \<Rightarrow> 'e VoiceGuardEngine \<Rightarrow> real list \<Rightarrow> indicators
      \<Rightarrow> error + (pyfloat \<times> reason list \<times> pyfloat \<times> 'e VoiceGuardEngine)" where
  "run_backend ext eng audio_proc ind =
     (let counted = eng\<lparr>eng_backend_calls := Suc (eng_backend_calls eng)\<rparr>
      in case eng_backend_in_use eng of
           Onnx \<Rightarrow>
             (if \<not> eng_onnx_loaded eng then Inl RuntimeError
              else
                (case ext_onnx_predict ext (normalize_audio audio_proc (99 / 100)) of
                   Inl e \<Rightarrow> Inl e
                 | Inr p_fake \<Rightarrow>
                     Inr (p_fake, heuristic_reasons ind,
                          fl_scale 2 (fl_abs (fl_sub p_fake (Num (1 / 2)))), counted)))
         | Hf \<Rightarrow>
             (if \<not> eng_hf_loaded eng then Inl RuntimeError
              else
                (case ext_hf_predict ext audio_proc (eng_target_sr eng) of
                   Inl e \<Rightarrow> Inl e
                 | Inr (p_fake, model_confidence) \<Rightarrow>
                     Inr (p_fake, heuristic_reasons ind, model_confidence, counted)))
         | Heuristic \<Rightarrow>
             (let (p_fake, reasons) = heuristic_p_fake ind
              in Inr (p_fake, reasons,
                      fl_scale 2 (fl_abs (fl_sub p_fake (Num (1 / 2)))), counted)))"

text \<open>
  The rest of \<open>infer_window\<close> for a speech window: enhancement, indicators, the backend,
  the moving average and the confidence.
\<close>

definition infer_speech ::
    "'e externals \<Rightarrow> 'e VoiceGuardEngine \<Rightarrow> real list \<Rightarrow> pyfloat
      \<Rightarrow> error + (InferenceResult \<times> 'e VoiceGuardEngine)" where
  "infer_speech ext eng audio_rs level =
     (case (case eng_enhancer eng of
              None \<Rightarrow> Inr (audio_rs, eng)
            | Some enh \<Rightarrow>
                (case enhancer_process ext enh audio_rs of
                   Inl e \<Rightarrow> Inl e
                 | Inr (x, enh') \<Rightarrow> Inr (x, eng\<lparr>eng_enhancer := Some enh'\<rparr>))) of
        Inl e \<Rightarrow> Inl e
      | Inr (audio_proc, eng1) \<Rightarrow>
      case extract_indicators ext audio_proc (eng_target_sr eng1) of
           Inl e \<Rightarrow> Inl e
         | Inr ind \<Rightarrow>
             (case run_backend ext eng1 audio_proc ind of
                Inl e \<Rightarrow> Inl e
              | Inr (p_fake, reasons, model_confidence, eng2) \<Rightarrow>
                  (let ema = (case eng_ema eng2 of
                                None \<Rightarrow> p_fake
                              | Some prev \<Rightarrow>
                                  fl_add (fl_scale (eng_ema_alpha eng2) p_fake)
                                         (fl_scale (1 - eng_ema_alpha eng2) prev));
                       eng3 = eng2\<lparr>eng_ema := Some ema\<rparr>;
                       quality = clamp (fl_scale (1 / 30)
                                   (fl_sub level (Num (eng_rms_db_threshold eng3)))) 0 1;
                       conf = clamp model_confidence 0 1;
                       confidence =
                         clamp (fl_add (Num (15 / 100))
                                  (fl_scale (85 / 100)
                                     (fl_add (fl_scale (60 / 100) quality)
                                             (fl_scale (40 / 100) conf)))) 0 1
                   in Inr (\<lparr>ir_p_fake = clamp p_fake 0 1,
                             ir_p_fake_smooth = clamp ema 0 1,
                             ir_confidence = confidence,
                             ir_is_speech = True,
                             ir_indicators = ind,
                             ir_reasons = reasons\<rparr>, eng3))))"

definition infer_window ::
    "'e externals \<Rightarrow> 'e VoiceGuardEngine \<Rightarrow> ndarray \<Rightarrow> int
      \<Rightarrow> error + (InferenceResult \<times> 'e VoiceGuardEngine)" where
  "infer_window ext eng audio orig_sr =
     (case vad_gate ext eng audio orig_sr of
        Inl e \<Rightarrow> Inl e
      | Inr (audio_rs, raw_indicators, level, is_speech) \<Rightarrow>
          (if \<not> is_speech then
             (case (case eng_enhancer eng of
                      None \<Rightarrow> Inr eng
                    | Some enh \<Rightarrow>
                        (case update_noise ext enh audio_rs of
                           Inl e \<Rightarrow> Inl e
                         | Inr enh' \<Rightarrow> Inr (eng\<lparr>eng_enhancer := Some enh'\<rparr>))) of
                Inl e \<Rightarrow> Inl e
              | Inr eng1 \<Rightarrow>
                  Inr (\<lparr>ir_p_fake = NaN,
                        ir_p_fake_smooth = NaN,
                        ir_confidence = Num 0,
                        ir_is_speech = False,
                        ir_indicators = raw_indicators,
                        ir_reasons = []\<rparr>, eng1))
           else infer_speech ext eng audio_rs level))"

section \<open>alerts.py\<close>

text \<open>
  Times, the threshold, the hold time and the step are finite floats; the probability
  passed to \<open>update\<close> may be not-a-number. Two operations of \<open>update\<close> round their
  result: the addition \<open>above_sec + step_sec\<close> and the subtraction
  \<open>t_end - above_sec\<close>; comparisons and \<open>max\<close> are exact. \<open>update\<close> below is the tracker
  over the real numbers, where the two operations are exact; \<open>update_rounded rnd\<close> passes
  their results through \<open>rnd\<close>, and \<open>update_rounded float64_round\<close> is the tracker in
  binary64 arithmetic.
\<close>

record AlertSegment =
  start_sec :: real
  end_sec :: real

record AlertTracker =
  at_threshold :: real
  at_hold_sec :: real
  at_step_sec :: real
  at_above_sec :: real
  at_active :: bool
  at_active_start :: real
  at_segments :: "AlertSegment list"

definition AlertTracker_init :: "real \<Rightarrow> real \<Rightarrow> real \<Rightarrow> AlertTracker" where
  "AlertTracker_init threshold hold_sec step_sec =
     \<lparr>at_threshold = threshold, at_hold_sec = hold_sec, at_step_sec = step_sec,
      at_above_sec = 0, at_active = False, at_active_start = 0, at_segments = []\<rparr>"

text \<open>
  \<open>close_segment\<close> is the block that both the non-speech branch and the below-threshold
  branch of \<open>update\<close> and \<open>finalize\<close> run: append the open segment, if there is one, and
  go back to inactive with nothing accumulated.
\<close>

definition close_segment :: "AlertTracker \<Rightarrow> real \<Rightarrow> AlertTracker" where
  "close_segment tr t_end =
     (let tr1 = (if at_active tr
                 then tr\<lparr>at_segments := at_segments tr @
                          [\<lparr>start_sec = at_active_start tr, end_sec = t_end\<rparr>]\<rparr>
                 else tr)
      in tr1\<lparr>at_active := False, at_above_sec := 0\<rparr>)"

definition update ::
    "AlertTracker \<Rightarrow> real \<Rightarrow> real \<Rightarrow> pyfloat \<Rightarrow> bool \<Rightarrow> bool \<times> AlertTracker" where
  "update tr t_start t_end p is_speech =
     (if \<not> is_speech then (False, close_segment tr t_end)
      else
        (let tr2 =
           (if fl_le (Num (at_threshold tr)) p then
              (let tr1 = tr\<lparr>at_above_sec := at_above_sec tr + at_step_sec tr\<rparr>
               in if \<not> at_active tr1 \<and> at_hold_sec tr1 \<le> at_above_sec tr1
                  then tr1\<lparr>at_active := True,
                           at_active_start := max t_start (t_end - at_above_sec tr1)\<rparr>
                  else tr1)
            else close_segment tr t_end)
         in (at_active tr2, tr2)))"

definition update_rounded ::
    "(real \<Rightarrow> real) \<Rightarrow> AlertTracker \<Rightarrow> real \<Rightarrow> real \<Rightarrow> pyfloat \<Rightarrow> bool
      \<Rightarrow> bool \<times> AlertTracker" where
  "update_rounded rnd tr t_start t_end p is_speech =
     (if \<not> is_speech then (False, close_segment tr t_end)
      else
        (let tr2 =
           (if fl_le (Num (at_threshold tr)) p then
              (let tr1 = tr\<lparr>at_above_sec := rnd (at_above_sec tr + at_step_sec tr)\<rparr>
               in if \<not> at_active tr1 \<and> at_hold_sec tr1 \<le> at_above_sec tr1
                  then tr1\<lparr>at_active := True,
                           at_active_start :=
                             max t_start (rnd (t_end - at_above_sec tr1))\<rparr>
                  else tr1)
            else close_segment tr t_end)
         in (at_active tr2, tr2)))"

definition finalize :: "AlertTracker \<Rightarrow> real \<Rightarrow> AlertTracker" where
  "finalize tr t_end = close_segment tr t_end"

text \<open>
  A sequence of \<open>update\<close> calls on one tracker, each call given as
  \<open>(t_start, t_end, p, is_speech)\<close>, and the list of segments after the closing
  \<open>finalize\<close>.
\<close>

type_synonym alert_call = "real \<times> real \<times> pyfloat \<times> bool"

fun run_updates :: "AlertTracker \<Rightarrow> alert_call list \<Rightarrow> AlertTracker" where
  "run_updates tr [] = tr"
| "run_updates tr ((t_start, t_end, p, is_speech) # calls) =
     run_updates (snd (update tr t_start t_end p is_speech)) calls"

definition tracked_segments ::
    "AlertTracker \<Rightarrow> alert_call list \<Rightarrow> real \<Rightarrow> AlertSegment list" where
  "tracked_segments tr calls t_final = at_segments (finalize (run_updates tr calls) t_final)"

fun run_updates_rounded ::
    "(real \<Rightarrow> real) \<Rightarrow> AlertTracker \<Rightarrow> alert_call list \<Rightarrow> AlertTracker" where
  "run_updates_rounded rnd tr [] = tr"
| "run_updates_rounded rnd tr ((t_start, t_end, p, is_speech) # calls) =
     run_updates_rounded rnd (snd (update_rounded rnd tr t_start t_end p is_speech)) calls"

definition tracked_segments_rounded ::
    "(real \<Rightarrow> real) \<Rightarrow> AlertTracker \<Rightarrow> alert_call list \<Rightarrow> real \<Rightarrow> AlertSegment list" where
  "tracked_segments_rounded rnd tr calls t_final =
     at_segments (finalize (run_updates_rounded rnd tr calls) t_final)"








section \<open>config.py and the engine constructor\<close>

text \<open>
  The configuration values that the analysis reads. The constructor of the engine
  chooses the backend by looking for model files and importing libraries, and scipy
  designs the band-pass filter of the enhancer; the choice, the note and the designed
  filter are parameters here, and the constructor is taken to succeed. A backend object
  exists exactly for the backend chosen.
\<close>

record AppConfig =
  cfg_sample_rate :: int
  cfg_window_sec :: real
  cfg_hop_sec :: real
  cfg_alert_threshold :: real
  cfg_alert_hold_sec :: real
  cfg_ema_alpha :: real
  cfg_rms_db_threshold :: real
  cfg_enhance_enabled :: bool
  cfg_enhance_bandpass :: bool
  cfg_enhance_noise_reduction :: bool
  cfg_enhance_noise_strength :: real
  cfg_enhance_noise_ema :: real

definition AudioEnhancer_init :: "AppConfig \<Rightarrow> 'e \<Rightarrow> 'e AudioEnhancer" where
  "AudioEnhancer_init config designed_filter =
     \<lparr>enh_bandpass = cfg_enhance_bandpass config,
      enh_noise_reduction = cfg_enhance_noise_reduction config,
      enh_noise_strength = cfg_enhance_noise_strength config,
      enh_noise_ema = cfg_enhance_noise_ema config,
      enh_sos = (if cfg_enhance_bandpass config then Some designed_filter else None),
      enh_sos_state = None,
      enh_noise_mag = None\<rparr>"

definition VoiceGuardEngine_init ::
    "AppConfig \<Rightarrow> backend \<Rightarrow> string \<Rightarrow> 'e \<Rightarrow> 'e VoiceGuardEngine" where
  "VoiceGuardEngine_init config selected note fresh_enhancer =
     \<lparr>eng_backend_in_use = selected,
      eng_backend_note = note,
      eng_onnx_loaded = (selected = Onnx),
      eng_hf_loaded = (selected = Hf),
      eng_target_sr = cfg_sample_rate config,
      eng_ema_alpha = cfg_ema_alpha config,
      eng_ema = None,
      eng_rms_db_threshold = cfg_rms_db_threshold config,
      eng_enhancer = (if cfg_enhance_enabled config
                      then Some (AudioEnhancer_init config fresh_enhancer) else None),
      eng_backend_calls = 0\<rparr>"

section \<open>numpy statistics\<close>

text \<open>
  \<open>np.mean\<close>, \<open>np.max\<close>, \<open>np.min\<close>, \<open>np.median\<close> and \<open>np.quantile\<close> (linear
  interpolation between the two nearest ranks) on a non-empty list of floats; \<open>np.max\<close>
  and \<open>np.min\<close> return not-a-number when the list holds one.
\<close>

definition np_mean :: "pyfloat list \<Rightarrow> pyfloat" where
  "np_mean xs = fl_scale (1 / real (length xs)) (foldl fl_add (Num 0) xs)"

definition np_max :: "pyfloat list \<Rightarrow> pyfloat" where
  "np_max xs = (if NaN \<in> set xs then NaN else foldl py_max (hd xs) (tl xs))"

definition np_min :: "pyfloat list \<Rightarrow> pyfloat" where
  "np_min xs = (if NaN \<in> set xs then NaN else foldl py_min (hd xs) (tl xs))"

fun fl_insort :: "pyfloat \<Rightarrow> pyfloat list \<Rightarrow> pyfloat list" where
  "fl_insort x [] = [x]"
| "fl_insort x (y # ys) = (if fl_less y x then y # fl_insort x ys else x # y # ys)"

definition fl_sort :: "pyfloat list \<Rightarrow> pyfloat list" where
  "fl_sort xs = foldr fl_insort xs []"

definition np_quantile :: "pyfloat list \<Rightarrow> real \<Rightarrow> pyfloat" where
  "np_quantile xs q =
     (let sorted_vals = fl_sort xs;
          n = length sorted_vals;
          h = real (n - 1) * q;
          lo = nat \<lfloor>h\<rfloor>;
          hi = min (lo + 1) (n - 1)
      in fl_add (sorted_vals ! lo)
           (fl_scale (h - real lo) (fl_sub (sorted_vals ! hi) (sorted_vals ! lo))))"

definition np_median :: "pyfloat list \<Rightarrow> pyfloat" where
  "np_median xs = np_quantile xs (1 / 2)"

section \<open>analysis.py\<close>

record WindowScore =
  ws_t_start :: real
  ws_t_end :: real
  ws_result :: InferenceResult

record AnalysisSummary =
  as_total_windows :: int
  as_speech_windows :: nat
  as_duration_sec :: real
  as_p_fake_overall :: pyfloat
  as_p_fake_median :: pyfloat
  as_p_fake_p95 :: pyfloat
  as_p_fake_mean :: pyfloat
  as_p_fake_max :: pyfloat
  as_fake_fraction :: real
  as_confidence_mean :: pyfloat
  as_confidence_min :: pyfloat
  as_alert_segments :: "AlertSegment list"

record AnalysisResult =
  ar_source_kind :: string
  ar_source :: string
  ar_created_at :: string
  ar_sample_rate :: int
  ar_window_sec :: real
  ar_hop_sec :: real
  ar_backend :: backend
  ar_backend_note :: string
  ar_windows :: "WindowScore list"
  ar_summary :: AnalysisSummary

text \<open>
  \<open>str.lower\<close> on ASCII text, and \<open>int\<close> on a float, which truncates towards zero.
\<close>

definition ascii_lower :: "char \<Rightarrow> char" where
  "ascii_lower c =
     (case map_of (zip ''ABCDEFGHIJKLMNOPQRSTUVWXYZ'' ''abcdefghijklmnopqrstuvwxyz'') c of
        Some d \<Rightarrow> d
      | None \<Rightarrow> c)"

definition str_lower :: "string \<Rightarrow> string" where
  "str_lower s = map ascii_lower s"

definition py_int :: "real \<Rightarrow> int" where
  "py_int x = (if 0 \<le> x then \<lfloor>x\<rfloor> else \<lceil>x\<rceil>)"

text \<open>
  The loop of \<open>analyze_audio\<close> over the windows of \<open>iter_windows\<close>, without the progress
  callback: the engine, the alert tracker and the list of window scores are threaded
  through, and an exception of \<open>infer_window\<close> ends the analysis.
\<close>

fun analysis_loop ::
    "'e externals \<Rightarrow> bool \<Rightarrow> int \<Rightarrow> int
      \<Rightarrow> 'e VoiceGuardEngine \<Rightarrow> AlertTracker \<Rightarrow> WindowScore list
      \<Rightarrow> (int \<times> real list) list
      \<Rightarrow> error + ('e VoiceGuardEngine \<times> AlertTracker \<times> WindowScore list)" where
  "analysis_loop ext use_raw_for_alert target_sr window_samples engine alert windows [] =
     Inr (engine, alert, windows)"
| "analysis_loop ext use_raw_for_alert target_sr window_samples engine alert windows
       ((start, win) # rest) =
     (if target_sr = 0 then Inl ZeroDivisionError
      else
        (let t_start = real_of_int start / real_of_int target_sr;
             t_end = real_of_int (start + window_samples) / real_of_int target_sr
         in case infer_window ext engine (Arr1 win) target_sr of
              Inl e \<Rightarrow> Inl e
            | Inr (result, engine') \<Rightarrow>
                (let alert' =
                       (if ir_is_speech result then
                          snd (update alert t_start t_end
                                 (if use_raw_for_alert then ir_p_fake result
                                  else ir_p_fake_smooth result) True)
                        else snd (update alert t_start t_end (Num 0) False))
                 in analysis_loop ext use_raw_for_alert target_sr window_samples engine' alert'
                      (windows @ [\<lparr>ws_t_start = t_start, ws_t_end = t_end,
                                    ws_result = result\<rparr>]) rest)))"

text \<open>
  The first part of \<open>analyze_audio\<close>, up to the closing \<open>finalize\<close>: everything that may
  raise to the caller. It returns the resampled audio, the window count, the engine, the
  tracker and the window scores.
\<close>

definition analysis_pass ::
    "'e externals \<Rightarrow> ndarray \<Rightarrow> int \<Rightarrow> AppConfig \<Rightarrow> string \<Rightarrow> backend \<Rightarrow> string \<Rightarrow> 'e
      \<Rightarrow> error + (real list \<times> int \<times> 'e VoiceGuardEngine \<times> AlertTracker \<times> WindowScore list)"
    where
  "analysis_pass ext audio orig_sr config source_kind selected note fresh_enhancer =
     (let target_sr = cfg_sample_rate config
      in case preprocess_audio ext audio orig_sr target_sr False of
           Inl e \<Rightarrow> Inl e
         | Inr audio_rs \<Rightarrow>
             (case window_params target_sr (cfg_window_sec config) (cfg_hop_sec config) of
                Inl e \<Rightarrow> Inl e
              | Inr (window_samples, hop_samples) \<Rightarrow>
                  (let total_windows = estimate_num_windows (int (length audio_rs))
                                 window_samples hop_samples;
                       engine = reset_state ext
                                  (VoiceGuardEngine_init config selected note fresh_enhancer);
                       hold_sec = (if str_lower source_kind = ''file''
                                   then min (cfg_alert_hold_sec config) (cfg_hop_sec config)
                                   else cfg_alert_hold_sec config);
                       alert = AlertTracker_init (cfg_alert_threshold config) hold_sec
                                 (cfg_hop_sec config);
                       use_raw_for_alert = (str_lower source_kind = ''file'')
                   in case iter_windows audio_rs window_samples hop_samples of
                        Inl e \<Rightarrow> Inl e
                      | Inr wins \<Rightarrow>
                          (case analysis_loop ext use_raw_for_alert target_sr window_samples
                                  engine alert [] wins of
                             Inl e \<Rightarrow> Inl e
                           | Inr (engine', alert', windows) \<Rightarrow>
                               Inr (audio_rs, total_windows, engine',
                                    (if windows \<noteq> []
                                     then finalize alert' (ws_t_end (last windows))
                                     else alert'),
                                    windows)))))"

text \<open>
  The whole-clip inference inside the \<open>try\<close> block: \<open>None\<close> when the clip is empty and
  nothing is inferred, otherwise the outcome of \<open>infer_window\<close> on the clip that starts at
  the first speech window and is at most twelve seconds long.
\<close>

definition first_speech_start :: "WindowScore list \<Rightarrow> real" where
  "first_speech_start windows =
     (case filter (\<lambda>w. ir_is_speech (ws_result w)) windows of
        [] \<Rightarrow> 0
      | w # _ \<Rightarrow> ws_t_start w)"

definition whole_clip_inference ::
    "'e externals \<Rightarrow> 'e VoiceGuardEngine \<Rightarrow> WindowScore list \<Rightarrow> real list \<Rightarrow> int
      \<Rightarrow> (error + (InferenceResult \<times> 'e VoiceGuardEngine)) option" where
  "whole_clip_inference ext engine windows audio_rs target_sr =
     (let start = py_int (first_speech_start windows * real_of_int target_sr);
          clip_len = min (int (length audio_rs) - start) (py_int (real_of_int target_sr * 12))
      in if 0 < clip_len
         then Some (infer_window ext engine
                      (Arr1 (py_slice audio_rs start (start + clip_len))) target_sr)
         else None)"

definition p_vals_of :: "WindowScore list \<Rightarrow> pyfloat list" where
  "p_vals_of windows =
     map (\<lambda>w. ir_p_fake (ws_result w))
       (filter (\<lambda>w. ir_is_speech (ws_result w) \<and> \<not> isnan (ir_p_fake (ws_result w))) windows)"

definition p_clip_of ::
    "'e externals \<Rightarrow> 'e VoiceGuardEngine \<Rightarrow> WindowScore list \<Rightarrow> real list \<Rightarrow> int
      \<Rightarrow> pyfloat \<Rightarrow> pyfloat" where
  "p_clip_of ext engine windows audio_rs target_sr p_p95 =
     (if eng_backend_in_use engine = Hf \<and> p_vals_of windows \<noteq> [] then
        (case whole_clip_inference ext engine windows audio_rs target_sr of
           None \<Rightarrow> p_p95
         | Some (Inl e) \<Rightarrow> p_p95
         | Some (Inr (clip_res, engine')) \<Rightarrow>
             (if ir_is_speech clip_res \<and> \<not> isnan (ir_p_fake clip_res)
              then ir_p_fake clip_res else p_p95))
      else p_p95)"

text \<open>
  The second part of \<open>analyze_audio\<close>: the statistics, the whole-clip score and the
  result record. Nothing in it raises to the caller.
\<close>

definition summarize ::
    "'e externals \<Rightarrow> AppConfig \<Rightarrow> string \<Rightarrow> string \<Rightarrow> string
      \<Rightarrow> real list \<Rightarrow> int \<Rightarrow> 'e VoiceGuardEngine \<Rightarrow> AlertTracker \<Rightarrow> WindowScore list
      \<Rightarrow> AnalysisResult" where
  "summarize ext config source_kind source created_at audio_rs total_windows engine alert windows =
     (let target_sr = cfg_sample_rate config;
          p_vals = p_vals_of windows;
          conf_vals = map (\<lambda>w. ir_confidence (ws_result w))
                        (filter (\<lambda>w. ir_is_speech (ws_result w)) windows);
          p_mean = (if p_vals \<noteq> [] then np_mean p_vals else Num 0);
          p_max = (if p_vals \<noteq> [] then np_max p_vals else Num 0);
          p_median = (if p_vals \<noteq> [] then np_median p_vals else Num 0);
          p_p95 = (if p_vals \<noteq> [] then np_quantile p_vals (95 / 100) else Num 0);
          fake_fraction =
            (if p_vals \<noteq> []
             then real (length (filter (\<lambda>p. fl_le (Num (cfg_alert_threshold config)) p) p_vals))
                    / real (length p_vals)
             else 0);
          conf_mean = (if conf_vals \<noteq> [] then np_mean conf_vals else Num 0);
          conf_min = (if conf_vals \<noteq> [] then np_min conf_vals else Num 0);
          duration_sec = (if 0 < target_sr
                          then real (length audio_rs) / real_of_int target_sr else 0);
          p_clip = p_clip_of ext engine windows audio_rs target_sr p_p95;
          p_overall = py_max p_p95 p_clip
      in \<lparr>ar_source_kind = source_kind,
          ar_source = source,
          ar_created_at = created_at,
          ar_sample_rate = target_sr,
          ar_window_sec = cfg_window_sec config,
          ar_hop_sec = cfg_hop_sec config,
          ar_backend = eng_backend_in_use engine,
          ar_backend_note = eng_backend_note engine,
          ar_windows = windows,
          ar_summary =
            \<lparr>as_total_windows = total_windows,
             as_speech_windows = length p_vals,
             as_duration_sec = duration_sec,
             as_p_fake_overall = p_overall,
             as_p_fake_median = p_median,
             as_p_fake_p95 = p_p95,
             as_p_fake_mean = p_mean,
             as_p_fake_max = p_max,
             as_fake_fraction = fake_fraction,
             as_confidence_mean = conf_mean,
             as_confidence_min = conf_min,
             as_alert_segments = at_segments alert\<rparr>\<rparr>)"

definition analyze_audio ::
    "'e externals \<Rightarrow> ndarray \<Rightarrow> int \<Rightarrow> AppConfig \<Rightarrow> string \<Rightarrow> string
      \<Rightarrow> backend \<Rightarrow> string \<Rightarrow> 'e \<Rightarrow> string \<Rightarrow> error + AnalysisResult" where
  "analyze_audio ext audio orig_sr config source_kind source selected note fresh_enhancer
       created_at =
     (case analysis_pass ext audio orig_sr config source_kind selected note fresh_enhancer of
        Inl e \<Rightarrow> Inl e
      | Inr (audio_rs, total_windows, engine, alert, windows) \<Rightarrow>
          Inr (summarize ext config source_kind source created_at audio_rs total_windows engine alert
                 windows))"

text \<open>
  The \<open>update\<close> call that the loop makes for a window score, and example values: a
  set of externals whose \<open>sosfilt\<close> raises \<open>ValueError\<close> on an empty signal, as scipy's
  does, and whose pretrained classifier scores a window of up to four samples 0.6 and
  answers a longer clip as the parameter says; a configuration with four samples per
  second; and the results of analysing six samples of ones under it.
\<close>

definition alert_call :: "bool \<Rightarrow> WindowScore \<Rightarrow> alert_call" where
  "alert_call use_raw_for_alert w =
     (ws_t_start w, ws_t_end w,
      (if ir_is_speech (ws_result w)
       then (if use_raw_for_alert then ir_p_fake (ws_result w)
             else ir_p_fake_smooth (ws_result w))
       else Num 0),
      ir_is_speech (ws_result w))"

definition example_externals :: "error + (pyfloat \<times> pyfloat) \<Rightarrow> unit externals" where
  "example_externals long_clip =
     \<lparr>ext_resample_poly = None,
      ext_spectral = (\<lambda>audio sample_rate. Map.empty),
      ext_sosfilt_zi = (\<lambda>sos x0. sos),
      ext_sosfilt = (\<lambda>sos state audio.
         if length audio = 0 then Inl ValueError else Inr (audio, state)),
      ext_fft_mag = (\<lambda>audio. map abs audio),
      ext_spectral_subtract = (\<lambda>strength noise_mag audio. audio),
      ext_onnx_predict = (\<lambda>audio. Inl ExternalError),
      ext_hf_predict = (\<lambda>audio sample_rate.
         if length audio \<le> 4 then Inr (Num (6 / 10), Num (6 / 10)) else long_clip)\<rparr>"

definition example_config :: AppConfig where
  "example_config =
     \<lparr>cfg_sample_rate = 4, cfg_window_sec = 1, cfg_hop_sec = 1 / 2,
      cfg_alert_threshold = 1 / 2, cfg_alert_hold_sec = 3, cfg_ema_alpha = 35 / 100,
      cfg_rms_db_threshold = - 45, cfg_enhance_enabled = False,
      cfg_enhance_bandpass = True, cfg_enhance_noise_reduction = True,
      cfg_enhance_noise_strength = 80 / 100, cfg_enhance_noise_ema = 10 / 100\<rparr>"

definition example_level :: real where
  "example_level = 20 * log 10 (1 + default_eps)"

definition example_result :: "real \<Rightarrow> InferenceResult" where
  "example_result p =
     \<lparr>ir_p_fake = Num p, ir_p_fake_smooth = Num p,
      ir_confidence = Num (15 / 100 + 85 / 100 * (60 / 100 + 40 / 100 * p)),
      ir_is_speech = True,
      ir_indicators = [''rms_db'' \<mapsto> Num example_level, ''zcr'' \<mapsto> Num 0],
      ir_reasons = [LowHfEnergy, LowRolloff, LowFlatness]\<rparr>"

definition example_windows :: "WindowScore list" where
  "example_windows =
     [\<lparr>ws_t_start = 0, ws_t_end = 1, ws_result = example_result (6 / 10)\<rparr>,
      \<lparr>ws_t_start = 1 / 2, ws_t_end = 3 / 2, ws_result = example_result (6 / 10)\<rparr>]"

definition example_alert :: AlertTracker where
  "example_alert =
     \<lparr>at_threshold = 1 / 2, at_hold_sec = 1 / 2, at_step_sec = 1 / 2, at_above_sec = 0,
      at_active = False, at_active_start = 1 / 2,
      at_segments = [\<lparr>start_sec = 1 / 2, end_sec = 3 / 2\<rparr>]\<rparr>"

definition example_engine ::
    "backend \<Rightarrow> unit AudioEnhancer option \<Rightarrow> nat \<Rightarrow> pyfloat option
      \<Rightarrow> unit VoiceGuardEngine" where
  "example_engine b enhancer calls ema =
     \<lparr>eng_backend_in_use = b, eng_backend_note = [],
      eng_onnx_loaded = (b = Onnx), eng_hf_loaded = (b = Hf),
      eng_target_sr = 4, eng_ema_alpha = 35 / 100, eng_ema = ema,
      eng_rms_db_threshold = - 45, eng_enhancer = enhancer, eng_backend_calls = calls\<rparr>"

section \<open>Auxiliary notions for the segmentation proofs\<close>

text \<open>
  \<open>next_after i stop step\<close> is the value of the loop variable when \<open>range_up\<close> stops,
  \<open>mk_window\<close> the window of a signal at a start offset, and \<open>swp_inv\<close> the state of a
  processor between two pushes, after the signal \<open>xs\<close> has been pushed.
\<close>

function next_after :: "int \<Rightarrow> int \<Rightarrow> int \<Rightarrow> int" where
  "next_after i stop step =
     (if 0 < step \<and> i < stop then next_after (i + step) stop step else i)"
  by pat_completeness auto
termination
  by (relation "measure (\<lambda>(i, stop, step). nat (stop - i))") auto

definition mk_window :: "'a list \<Rightarrow> int \<Rightarrow> int \<Rightarrow> 'a StreamWindow" where
  "mk_window xs w s = \<lparr>sw_start_sample = s, sw_samples = take (nat w) (drop (nat s) xs)\<rparr>"

definition swp_inv :: "int \<Rightarrow> int \<Rightarrow> 'a StreamWindowProcessor \<Rightarrow> 'a list \<Rightarrow> bool" where
  "swp_inv w h p xs \<longleftrightarrow>
     swp_window_samples p = w \<and> swp_hop_samples p = h \<and>
     swp_total_samples p = int (length xs) \<and>
     swp_buffer_start p = swp_next_window_start p \<and>
     0 \<le> swp_next_window_start p \<and>
     swp_next_window_start p \<le> int (length xs) \<and>
     int (length xs) - w < swp_next_window_start p \<and>
     swp_buffer p = drop (nat (swp_buffer_start p)) xs"

section \<open>Auxiliary notions for the alert proofs\<close>

text \<open>
  \<open>update\<close> makes one of three transitions: \<open>close_segment\<close>, \<open>accumulate\<close> (add one
  step to the accumulated time) or \<open>open_segment\<close> (accumulate and become active);
  \<open>update_rounded\<close> makes the same three with the rounded operations.
\<close>

definition accumulate :: "AlertTracker \<Rightarrow> AlertTracker" where
  "accumulate tr = tr\<lparr>at_above_sec := at_above_sec tr + at_step_sec tr\<rparr>"

definition open_segment :: "AlertTracker \<Rightarrow> real \<Rightarrow> real \<Rightarrow> AlertTracker" where
  "open_segment tr t_start t_end =
     (accumulate tr)\<lparr>at_active := True,
        at_active_start := max t_start (t_end - (at_above_sec tr + at_step_sec tr))\<rparr>"













section \<open>Auxiliary notions for the analysis proofs\<close>

text \<open>
  \<open>hold_inv\<close>: the hold time is at most one step and an inactive tracker has nothing
  accumulated. \<open>has_alert\<close>: a segment is open or has been recorded.
\<close>

definition hold_inv :: "AlertTracker \<Rightarrow> bool" where
  "hold_inv tr \<longleftrightarrow> at_hold_sec tr \<le> at_step_sec tr \<and> (\<not> at_active tr \<longrightarrow> at_above_sec tr = 0)"

definition has_alert :: "AlertTracker \<Rightarrow> bool" where
  "has_alert tr \<longleftrightarrow> at_active tr \<or> at_segments tr \<noteq> []"

section \<open>Floating-point rounding\<close>


lemma py_round_of_int: "py_round (real_of_int n) = n"
  by (simp add: py_round_def)




lemma float_round_zero: "float_round p emin 0 = 0"
  by (simp add: float_round_def)










lemma float_round_dyadic:
  assumes "\<bar>m\<bar> < 2 ^ Suc p" "emin - int p \<le> k"
  shows "float_round p emin (real_of_int m * 2 powr real_of_int k)
    = real_of_int m * 2 powr real_of_int k"
proof (cases "m = 0")
  case True
  then show ?thesis by (simp add: float_round_def)
next
  case False
  define x where "x = real_of_int m * 2 powr real_of_int k"
  define e where "e = max emin \<lfloor>log 2 \<bar>x\<bar>\<rfloor>"
  define u where "u = 2 powr (real_of_int e - real p)"
  have x0: "x \<noteq> 0" using False by (simp add: x_def)
  have ax: "\<bar>x\<bar> = \<bar>real_of_int m\<bar> * 2 powr real_of_int k"
    by (simp add: x_def abs_mult)
  have "\<bar>real_of_int m\<bar> < 2 ^ Suc p"
    using assms(1) by (metis of_int_abs of_int_less_iff of_int_numeral of_int_power)
  also have "(2::real) ^ Suc p = 2 powr real (Suc p)"
    by (rule powr_realpow [symmetric]) simp
  finally have "\<bar>x\<bar> < 2 powr real (Suc p) * 2 powr real_of_int k"
    unfolding ax by (simp only: mult_less_cancel_right_pos powr_gt_zero)
  then have "\<bar>x\<bar> < 2 powr (real (Suc p) + real_of_int k)"
    by (simp only: powr_add)
  then have "log 2 \<bar>x\<bar> < real (Suc p) + real_of_int k"
    using x0 by (simp add: less_powr_iff)
  then have "log 2 \<bar>x\<bar> < real_of_int (int (Suc p) + k)"
    by simp
  then have "\<lfloor>log 2 \<bar>x\<bar>\<rfloor> < int (Suc p) + k"
    by (simp only: floor_less_iff)
  then have e_le: "e \<le> int p + k"
    using assms(2) by (simp add: e_def)
  define n where "n = nat (int p + k - e)"
  have n: "real_of_int k = real n + (real_of_int e - real p)"
    using e_le unfolding n_def by simp
  have pw: "2 powr real_of_int k = 2 ^ n * u"
  proof -
    have "2 powr real_of_int k = 2 powr real n * u"
      unfolding u_def by (subst n) (simp only: powr_add)
    moreover have "(2::real) powr real n = 2 ^ n"
      by (rule powr_realpow) simp
    ultimately show ?thesis by (simp only:)
  qed
  have u: "u \<noteq> 0" by (simp add: u_def)
  have xu: "x = real_of_int (m * 2 ^ n) * u"
    unfolding x_def pw by simp
  then have "x / u = real_of_int (m * 2 ^ n)"
    using u by simp
  then have "real_of_int (py_round (x / u)) = real_of_int (m * 2 ^ n)"
    by (simp only: py_round_of_int)
  then have "real_of_int (py_round (x / u)) * u = x"
    using xu by simp
  then have "float_round p emin x = x"
    using x0 by (simp add: float_round_def Let_def e_def [symmetric] u_def [symmetric])
  then show ?thesis by (simp only: x_def)
qed

lemma float64_round_zero: "float64_round 0 = 0"
  by (simp add: float64_round_def float_round_zero)


lemma is_float64_of_int:
  assumes "\<bar>m\<bar> < 2 ^ 53"
  shows "is_float64 (real_of_int m)"
proof -
  have "\<bar>m\<bar> < 2 ^ Suc 52" using assms by simp
  then have "float_round 52 (- 1022) (real_of_int m * 2 powr real_of_int 0)
      = real_of_int m * 2 powr real_of_int 0"
    by (rule float_round_dyadic) simp
  then show ?thesis
    by (simp add: is_float64_def float64_round_def)
qed

lemma is_float64_half:
  assumes "\<bar>m\<bar> < 2 ^ 53"
  shows "is_float64 (real_of_int m / 2)"
proof -
  have "\<bar>m\<bar> < 2 ^ Suc 52" using assms by simp
  then have "float_round 52 (- 1022) (real_of_int m * 2 powr real_of_int (- 1))
      = real_of_int m * 2 powr real_of_int (- 1)"
    by (rule float_round_dyadic) simp
  moreover have "(2::real) powr real_of_int (- 1) = 1 / 2"
    by (simp add: powr_minus inverse_eq_divide)
  ultimately show ?thesis
    by (simp add: is_float64_def float64_round_def)
qed

section \<open>Window counts\<close>

declare range_up.simps [simp del] next_after.simps [simp del]

lemma length_range_up:
  "0 < step \<Longrightarrow> int (length (range_up i stop step)) =
     (if i < stop then (stop - i - 1) div step + 1 else 0)"
proof (induction i stop step rule: range_up.induct)
  case (1 i stop step)
  show ?case
  proof (cases "i < stop")
    case False
    then show ?thesis by (subst range_up.simps) simp
  next
    case True
    have ih: "int (length (range_up (i + step) stop step)) =
        (if i + step < stop then (stop - (i + step) - 1) div step + 1 else 0)"
      using "1.IH" "1.prems" True by simp
    have unfold: "range_up i stop step = i # range_up (i + step) stop step"
      using True "1.prems" by (subst range_up.simps) simp
    show ?thesis
    proof (cases "i + step < stop")
      case True
      have "stop - i - 1 = stop - (i + step) - 1 + step"
        by simp
      then have "(stop - i - 1) div step = (stop - (i + step) - 1 + step) div step"
        by (rule arg_cong)
      also have "\<dots> = (stop - (i + step) - 1) div step + 1"
        using "1.prems" by (intro div_add_self2) simp
      finally show ?thesis
        using ih True \<open>i < stop\<close> by (simp only: unfold) simp
    next
      case False
      have "0 \<le> stop - i - 1" "stop - i - 1 < step"
        using False \<open>i < stop\<close> by simp_all
      then have "(stop - i - 1) div step = 0"
        by simp
      then show ?thesis
        using ih False \<open>i < stop\<close> by (simp only: unfold) simp
    qed
  qed
qed

text \<open>
  C4. For positive window and hop sizes, \<open>estimate_num_windows n\<close> is \<open>0\<close> for \<open>n \<le> 0\<close>,
  \<open>1\<close> for \<open>0 < n < window_samples\<close> and \<open>1 + (n - window_samples) div hop_samples\<close>
  otherwise, and \<open>iter_windows\<close> yields exactly that many windows on every signal
  (its length playing the role of \<open>n\<close>), without raising.
\<close>

theorem estimate_num_windows_matches_iter_windows:
  assumes "0 < window_samples" and "0 < hop_samples"
  shows "estimate_num_windows n window_samples hop_samples =
           (if n \<le> 0 then 0
            else if n < window_samples then 1
            else 1 + (n - window_samples) div hop_samples)
         \<and> (\<exists>ws. iter_windows (audio :: 'a::zero list) window_samples hop_samples = Inr ws
               \<and> int (length ws) =
                   estimate_num_windows (int (length audio)) window_samples hop_samples)"
proof
  show "estimate_num_windows n window_samples hop_samples =
           (if n \<le> 0 then 0
            else if n < window_samples then 1
            else 1 + (n - window_samples) div hop_samples)"
    using assms by (simp add: estimate_num_windows_def)
next
  consider (empty) "length audio = 0"
    | (short) "length audio \<noteq> 0" "int (length audio) < window_samples"
    | (long) "length audio \<noteq> 0" "\<not> int (length audio) < window_samples"
    by blast
  then show "\<exists>ws. iter_windows audio window_samples hop_samples = Inr ws
               \<and> int (length ws) =
                   estimate_num_windows (int (length audio)) window_samples hop_samples"
  proof cases
    case empty
    then show ?thesis
      by (simp add: iter_windows_def estimate_num_windows_def)
  next
    case short
    then show ?thesis
      using assms by (simp add: iter_windows_def estimate_num_windows_def)
  next
    case long
    let ?stop = "int (length audio) - window_samples + 1"
    have len: "int (length (range_up 0 ?stop hop_samples)) =
        (int (length audio) - window_samples) div hop_samples + 1"
      using length_range_up [OF assms(2), of 0 ?stop] long by simp
    show ?thesis
      using long assms len
      by (simp add: iter_windows_def estimate_num_windows_def py_range_def)
  qed
qed

theorem estimate_num_windows_matches_iter_windows_witness:
  "(0::int) < 4 \<and> (0::int) < 2
   \<and> estimate_num_windows 10 4 2 = 4
   \<and> (\<exists>ws. iter_windows [1, 2, 3, 4, 5, 6, 7, 8, 9, 10 :: int] 4 2 = Inr ws
           \<and> int (length ws) = 4)"
proof -
  have w: "(0::int) < 4" and h: "(0::int) < 2"
    by simp_all
  have e: "estimate_num_windows 10 4 2 = 4"
    by (simp add: estimate_num_windows_def)
  show ?thesis
    using estimate_num_windows_matches_iter_windows
      [OF w h, of 10 "[1, 2, 3, 4, 5, 6, 7, 8, 9, 10 :: int]"] e
    by simp
qed

section \<open>Streaming and offline segmentation\<close>

lemma range_up_done: "\<not> i < stop \<Longrightarrow> range_up i stop step = []"
  by (subst range_up.simps) simp

lemma next_after_done: "\<not> i < stop \<Longrightarrow> next_after i stop step = i"
  by (subst next_after.simps) simp

lemma range_up_bounds:
  "s \<in> set (range_up i stop step) \<Longrightarrow> i \<le> s \<and> s < stop"
proof (induction i stop step rule: range_up.induct)
  case (1 i stop step)
  show ?case
  proof (cases "0 < step \<and> i < stop")
    case True
    then have "range_up i stop step = i # range_up (i + step) stop step"
      by (subst range_up.simps) simp
    with "1.prems" have "s = i \<or> s \<in> set (range_up (i + step) stop step)"
      by simp
    then show ?thesis
      using "1.IH" True by auto
  next
    case False
    then have "range_up i stop step = []"
      by (subst range_up.simps) simp
    with "1.prems" show ?thesis by simp
  qed
qed

lemma range_up_append:
  "stop \<le> stop' \<Longrightarrow>
   range_up i stop' step = range_up i stop step @ range_up (next_after i stop step) stop' step"
proof (induction i stop step rule: range_up.induct)
  case (1 i stop step)
  show ?case
  proof (cases "0 < step \<and> i < stop")
    case True
    have a: "range_up i stop step = i # range_up (i + step) stop step"
      using True by (subst range_up.simps) simp
    have b: "range_up i stop' step = i # range_up (i + step) stop' step"
      using True "1.prems" by (subst range_up.simps) simp
    have c: "next_after i stop step = next_after (i + step) stop step"
      using True by (subst next_after.simps) simp
    show ?thesis
      using "1.IH" [OF True "1.prems"] by (simp add: a b c)
  next
    case False
    have a: "range_up i stop step = []"
      using False by (subst range_up.simps) simp
    have c: "next_after i stop step = i"
      using False by (subst next_after.simps) auto
    show ?thesis by (simp add: a c)
  qed
qed

lemma next_after_bounds:
  "0 < step \<Longrightarrow> step \<le> w \<Longrightarrow> i \<le> n \<Longrightarrow>
   i \<le> next_after i (n - w + 1) step \<and> next_after i (n - w + 1) step \<le> n
   \<and> n - w < next_after i (n - w + 1) step"
proof (induction i "n - w + 1" step rule: next_after.induct)
  case (1 i step)
  show ?case
  proof (cases "i < n - w + 1")
    case True
    have c: "next_after i (n - w + 1) step = next_after (i + step) (n - w + 1) step"
      using True "1.prems" by (subst next_after.simps) simp
    have "i + step \<le> n" using True "1.prems" by simp
    then show ?thesis
      using "1.hyps" True "1.prems" by (simp add: c)
  next
    case False
    have c: "next_after i (n - w + 1) step = i"
      using False by (subst next_after.simps) simp
    show ?thesis using False "1.prems" by (simp add: c)
  qed
qed

lemma drop_nat_diff:
  assumes "0 \<le> a" "a \<le> b"
  shows "drop (nat (b - a)) (drop (nat a) zs) = drop (nat b) zs"
proof -
  have "nat (b - a) + nat a = nat b"
    using assms by linarith
  then show ?thesis
    by (simp only: drop_drop)
qed

lemma py_slice_window:
  assumes "0 \<le> a" "0 \<le> w" "a + w \<le> int (length xs)"
  shows "py_slice xs a (a + w) = take (nat w) (drop (nat a) xs)"
proof -
  have "slice_bound a (length xs) = nat a"
    using assms by (simp add: slice_bound_def)
  moreover have "slice_bound (a + w) (length xs) = nat (a + w)"
    using assms by (simp add: slice_bound_def)
  moreover have "nat (a + w) - nat a = nat w"
    using assms by simp
  ultimately show ?thesis
    by (simp add: py_slice_def)
qed

lemma push_loop_correct:
  shows "0 < h \<Longrightarrow> h \<le> w \<Longrightarrow> swp_window_samples p = w \<Longrightarrow> swp_hop_samples p = h \<Longrightarrow>
     swp_total_samples p = int (length xs) \<Longrightarrow>
     0 \<le> swp_buffer_start p \<Longrightarrow> swp_buffer_start p \<le> i \<Longrightarrow>
     swp_next_window_start p = i \<Longrightarrow>
     swp_buffer p = drop (nat (swp_buffer_start p)) xs \<Longrightarrow>
     push_loop p acc =
       Some (acc @ map (mk_window xs w) (range_up i (int (length xs) - w + 1) h),
             p\<lparr>swp_next_window_start := next_after i (int (length xs) - w + 1) h\<rparr>)"
proof (induction i "int (length xs) - w + 1" h arbitrary: p acc rule: range_up.induct)
  case (1 i h)
  let ?stop = "int (length xs) - w + 1"
  show ?case
  proof (cases "i < ?stop")
    case False
    have a: "range_up i ?stop h = []"
      using False by (subst range_up.simps) simp
    have c: "next_after i ?stop h = i"
      using False by (subst next_after.simps) simp
    have "push_loop p acc = Some (acc, p)"
      using False "1.prems" by (subst push_loop.simps) simp
    moreover have "p\<lparr>swp_next_window_start := i\<rparr> = p"
      using "1.prems" by simp
    ultimately show ?thesis by (simp add: a c)
  next
    case True
    have hpos: "0 < h" using "1.prems" by simp
    have a: "range_up i ?stop h = i # range_up (i + h) ?stop h"
      using True hpos by (subst range_up.simps) simp
    have c: "next_after i ?stop h = next_after (i + h) ?stop h"
      using True hpos by (subst next_after.simps) simp
    let ?b = "swp_buffer_start p"
    have len: "int (length (swp_buffer p)) = int (length xs) - ?b"
      using "1.prems" True by simp
    have sl: "py_slice (swp_buffer p) (i - ?b) (i - ?b + w) = take (nat w) (drop (nat i) xs)"
    proof -
      have "py_slice (swp_buffer p) (i - ?b) (i - ?b + w)
          = take (nat w) (drop (nat (i - ?b)) (swp_buffer p))"
        using "1.prems" True len by (intro py_slice_window) simp_all
      also have "drop (nat (i - ?b)) (swp_buffer p) = drop (nat i) xs"
        using "1.prems" drop_nat_diff [of ?b i xs] by simp
      finally show ?thesis .
    qed
    let ?p' = "p\<lparr>swp_next_window_start := i + h\<rparr>"
    have step: "push_loop p acc = push_loop ?p' (acc @ [mk_window xs w i])"
      using True "1.prems" len sl
      by (subst push_loop.simps) (simp add: Let_def mk_window_def)
    have ih: "push_loop ?p' (acc @ [mk_window xs w i]) =
       Some ((acc @ [mk_window xs w i]) @ map (mk_window xs w) (range_up (i + h) ?stop h),
             ?p'\<lparr>swp_next_window_start := next_after (i + h) ?stop h\<rparr>)"
      using "1.prems" hpos True by (intro "1.hyps") simp_all
    show ?thesis
      by (simp add: step ih a c)
  qed
qed


lemma mk_window_prefix:
  "0 \<le> s \<Longrightarrow> 0 \<le> w \<Longrightarrow> s + w \<le> int (length xs) \<Longrightarrow>
   mk_window (xs @ ys) w s = mk_window xs w s"
  by (simp add: mk_window_def)

lemma map_mk_window_prefix:
  assumes "0 \<le> i" "0 \<le> w"
  shows "map (mk_window (xs @ ys) w) (range_up i (int (length xs) - w + 1) h)
       = map (mk_window xs w) (range_up i (int (length xs) - w + 1) h)"
proof (rule map_cong [OF refl])
  fix s
  assume "s \<in> set (range_up i (int (length xs) - w + 1) h)"
  then have "i \<le> s \<and> s < int (length xs) - w + 1"
    by (rule range_up_bounds)
  then show "mk_window (xs @ ys) w s = mk_window xs w s"
    using assms by (intro mk_window_prefix) simp_all
qed

lemma push_correct:
  assumes "0 < h" "h \<le> w" "swp_inv w h p xs"
  shows "\<exists>p1. push p c =
            Some (map (mk_window (xs @ c) w)
                    (range_up (swp_next_window_start p) (int (length (xs @ c)) - w + 1) h), p1)
          \<and> swp_inv w h p1 (xs @ c)
          \<and> swp_next_window_start p1 =
              next_after (swp_next_window_start p) (int (length (xs @ c)) - w + 1) h"
proof (cases "c = []")
  case True
  let ?i = "swp_next_window_start p"
  have "\<not> ?i < int (length xs) - w + 1"
    using assms(3) by (simp add: swp_inv_def)
  then have a: "range_up ?i (int (length xs) - w + 1) h = []"
    and c: "next_after ?i (int (length xs) - w + 1) h = ?i"
    by (simp_all add: range_up_done next_after_done)
  show ?thesis
    using True assms(3) by (simp add: push_def a c)
next
  case False
  let ?i = "swp_next_window_start p"
  let ?ys = "xs @ c"
  let ?stop = "int (length ?ys) - w + 1"
  let ?p0 = "p\<lparr>swp_buffer := swp_buffer p @ c,
               swp_total_samples := swp_total_samples p + int (length c)\<rparr>"
  have inv: "swp_window_samples p = w" "swp_hop_samples p = h"
    "swp_total_samples p = int (length xs)" "swp_buffer_start p = ?i" "0 \<le> ?i"
    "?i \<le> int (length xs)" "swp_buffer p = drop (nat ?i) xs"
    using assms(3) by (simp_all add: swp_inv_def)
  have buf: "swp_buffer ?p0 = drop (nat (swp_buffer_start ?p0)) ?ys"
    using inv by simp
  have loop: "push_loop ?p0 [] =
      Some ([] @ map (mk_window ?ys w) (range_up ?i ?stop h),
            ?p0\<lparr>swp_next_window_start := next_after ?i ?stop h\<rparr>)"
    using assms(1,2) inv buf
    by (intro push_loop_correct) simp_all
  let ?j = "next_after ?i ?stop h"
  have nb: "?i \<le> ?j" "?j \<le> int (length ?ys)" "int (length ?ys) - w < ?j"
    using next_after_bounds [OF assms(1,2), of ?i "int (length ?ys)"] inv by simp_all
  let ?p2 = "?p0\<lparr>swp_next_window_start := ?j\<rparr>"
  let ?trim = "max 0 (swp_next_window_start ?p2 - swp_buffer_start ?p2)"
  have trim: "?trim = ?j - ?i"
    using nb inv by simp
  show ?thesis
  proof (cases "0 < ?trim")
    case False
    then have eq: "?j = ?i" using trim nb by simp
    have "push p c = Some (map (mk_window ?ys w) (range_up ?i ?stop h), ?p2)"
      using \<open>c \<noteq> []\<close> loop False by (simp add: push_def Let_def)
    moreover have "swp_inv w h ?p2 ?ys"
      using inv nb eq by (simp add: swp_inv_def)
    ultimately show ?thesis by simp
  next
    case True
    let ?p3 = "?p2\<lparr>swp_buffer := py_slice_from (swp_buffer ?p2) ?trim,
                    swp_buffer_start := swp_buffer_start ?p2 + ?trim\<rparr>"
    have "push p c = Some (map (mk_window ?ys w) (range_up ?i ?stop h), ?p3)"
      using \<open>c \<noteq> []\<close> loop True by (simp add: push_def Let_def)
    moreover have "swp_inv w h ?p3 ?ys"
    proof -
      have len: "int (length (swp_buffer ?p2)) = int (length ?ys) - ?i"
        using inv by simp
      have sb: "slice_bound (?j - ?i) (length (swp_buffer ?p2)) = nat (?j - ?i)"
        using nb len by (simp add: slice_bound_def)
      have "drop (nat (?j - ?i)) (drop (nat ?i) ?ys) = drop (nat ?j) ?ys"
        using nb inv by (intro drop_nat_diff)
      then have "py_slice_from (swp_buffer ?p2) ?trim = drop (nat ?j) ?ys"
        using inv sb unfolding trim py_slice_from_def by simp
      then show ?thesis
        using inv nb trim by (simp add: swp_inv_def)
    qed
    ultimately show ?thesis by simp
  qed
qed

lemma push_chunks_correct:
  assumes "0 < h" "h \<le> w"
  shows "swp_inv w h p xs \<Longrightarrow>
     \<exists>p'. push_chunks p cs =
            Some (map (mk_window (xs @ concat cs) w)
                    (range_up (swp_next_window_start p)
                       (int (length (xs @ concat cs)) - w + 1) h), p')
          \<and> swp_inv w h p' (xs @ concat cs)"
proof (induction cs arbitrary: p xs)
  case Nil
  let ?i = "swp_next_window_start p"
  have "\<not> ?i < int (length xs) - w + 1"
    using Nil by (simp add: swp_inv_def)
  then have a: "range_up ?i (int (length xs) - w + 1) h = []"
    by (subst range_up.simps) simp
  show ?case using Nil by (simp add: a)
next
  case (Cons c cs)
  let ?i = "swp_next_window_start p"
  let ?ys = "xs @ c"
  let ?zs = "?ys @ concat cs"
  let ?stop1 = "int (length ?ys) - w + 1"
  let ?stop2 = "int (length ?zs) - w + 1"
  obtain p1 where p1: "push p c = Some (map (mk_window ?ys w) (range_up ?i ?stop1 h), p1)"
    "swp_inv w h p1 ?ys" "swp_next_window_start p1 = next_after ?i ?stop1 h"
    using push_correct [OF assms Cons.prems, of c] by blast
  obtain p2 where p2: "push_chunks p1 cs =
      Some (map (mk_window ?zs w) (range_up (swp_next_window_start p1) ?stop2 h), p2)"
    "swp_inv w h p2 ?zs"
    using Cons.IH [OF p1(2)] by blast
  have i0: "0 \<le> ?i" using Cons.prems by (simp add: swp_inv_def)
  have w0: "0 \<le> w" using assms by simp
  have "map (mk_window ?ys w) (range_up ?i ?stop1 h)
      = map (mk_window ?zs w) (range_up ?i ?stop1 h)"
    using map_mk_window_prefix [OF i0 w0, of ?ys "concat cs" h] by simp
  moreover have "range_up ?i ?stop2 h
      = range_up ?i ?stop1 h @ range_up (next_after ?i ?stop1 h) ?stop2 h"
    by (intro range_up_append) simp
  ultimately have "map (mk_window ?ys w) (range_up ?i ?stop1 h)
      @ map (mk_window ?zs w) (range_up (swp_next_window_start p1) ?stop2 h)
      = map (mk_window ?zs w) (range_up ?i ?stop2 h)"
    using p1(3) by simp
  then show ?case
    using p1(1) p2 by simp
qed


lemma window_params_Inr:
  "window_params sample_rate window_sec hop_sec = Inr (w, h) \<Longrightarrow>
   w = sec_to_samples window_sec sample_rate \<and> h = sec_to_samples hop_sec sample_rate
   \<and> 0 < w \<and> 0 < h"
  by (auto simp: window_params_def Let_def split: if_splits)

lemma offline_windows:
  assumes "0 < w" "0 < h" "length xs = 0 \<or> w \<le> int (length xs)"
  shows "iter_windows xs w h =
    Inr (map (\<lambda>s. (s, take (nat w) (drop (nat s) xs)))
           (range_up 0 (int (length xs) - w + 1) h))"
proof (cases "xs = []")
  case True
  have "range_up 0 (int (length xs) - w + 1) h = []"
    using True assms(1) by (intro range_up_done) simp
  then show ?thesis
    using True by (simp add: iter_windows_def)
next
  case False
  let ?stop = "int (length xs) - w + 1"
  have long: "w \<le> int (length xs)"
    using False assms(3) by simp
  have "map (\<lambda>s. (s, py_slice xs s (s + w))) (range_up 0 ?stop h)
      = map (\<lambda>s. (s, take (nat w) (drop (nat s) xs))) (range_up 0 ?stop h)"
  proof (rule map_cong [OF refl])
    fix s
    assume "s \<in> set (range_up 0 ?stop h)"
    then have "0 \<le> s \<and> s < ?stop"
      by (rule range_up_bounds)
    then have "py_slice xs s (s + w) = take (nat w) (drop (nat s) xs)"
      using assms(1) by (intro py_slice_window) simp_all
    then show "(s, py_slice xs s (s + w)) = (s, take (nat w) (drop (nat s) xs))"
      by simp
  qed
  then show ?thesis
    using False long assms by (simp add: iter_windows_def py_range_def)
qed

lemma stream_windows:
  assumes "window_params sample_rate window_sec hop_sec = Inr (w, h)"
    and "h \<le> w"
  shows "stream_segmentation sample_rate window_sec hop_sec chunks =
     Inr (Some (map (\<lambda>s. (s, take (nat w) (drop (nat s) (concat chunks))))
                  (range_up 0 (int (length (concat chunks)) - w + 1) h)))"
proof -
  let ?xs = "concat chunks"
  let ?stop = "int (length ?xs) - w + 1"
  let ?p0 = "\<lparr>swp_sample_rate = sample_rate, swp_window_samples = w, swp_hop_samples = h,
              swp_buffer = ([] :: 'a list), swp_buffer_start = 0, swp_total_samples = 0,
              swp_next_window_start = 0\<rparr>"
  have wh: "w = sec_to_samples window_sec sample_rate" "h = sec_to_samples hop_sec sample_rate"
    "0 < w" "0 < h"
    using window_params_Inr [OF assms(1)] by simp_all
  have init: "StreamWindowProcessor_init sample_rate window_sec hop_sec = Inr ?p0"
    using wh by (simp add: StreamWindowProcessor_init_def Let_def)
  have "swp_inv w h ?p0 []"
    using wh by (simp add: swp_inv_def)
  from push_chunks_correct [OF wh(4) assms(2) this, of chunks]
  obtain p' where run: "push_chunks ?p0 chunks =
      Some (map (mk_window ?xs w) (range_up 0 ?stop h), p')"
    by auto
  show ?thesis
    by (simp add: stream_segmentation_def init run mk_window_def comp_def)
qed

text \<open>
  C1 (amended). For every configuration that yields \<open>window_samples > 0\<close> and
  \<open>0 < hop_samples \<le> window_samples\<close>, and every signal split into arbitrary chunks
  (empty ones included), the streaming processor returns from every \<open>push\<close>. When the
  signal is empty or at least one window long, the windows it emits are exactly the
  \<open>(start_sample, samples)\<close> pairs that \<open>iter_windows\<close> yields on the whole signal. When
  the signal is not empty and shorter than one window, \<open>iter_windows\<close> yields one window,
  the signal padded with zeros on the right, and the streaming processor emits none.
\<close>

theorem streaming_matches_offline:
  assumes "window_params sample_rate window_sec hop_sec = Inr (w, h)"
    and "h \<le> w"
  shows "(length (concat chunks) = 0 \<or> w \<le> int (length (concat chunks)) \<longrightarrow>
            (\<exists>ws. stream_segmentation sample_rate window_sec hop_sec chunks = Inr (Some ws)
               \<and> iter_windows (concat chunks :: 'a::zero list) w h = Inr ws))
         \<and> (0 < length (concat chunks) \<and> int (length (concat chunks)) < w \<longrightarrow>
              stream_segmentation sample_rate window_sec hop_sec chunks = Inr (Some [])
              \<and> iter_windows (concat chunks) w h =
                  Inr [(0, concat chunks @ replicate (nat w - length (concat chunks)) 0)])"
proof (intro conjI impI)
  assume len: "length (concat chunks) = 0 \<or> w \<le> int (length (concat chunks))"
  have wh: "0 < w" "0 < h"
    using window_params_Inr [OF assms(1)] by simp_all
  have "iter_windows (concat chunks) w h =
      Inr (map (\<lambda>s. (s, take (nat w) (drop (nat s) (concat chunks))))
             (range_up 0 (int (length (concat chunks)) - w + 1) h))"
    using wh len by (rule offline_windows)
  then show "\<exists>ws. stream_segmentation sample_rate window_sec hop_sec chunks = Inr (Some ws)
      \<and> iter_windows (concat chunks) w h = Inr ws"
    using stream_windows [OF assms, of chunks] by blast
next
  assume short: "0 < length (concat chunks) \<and> int (length (concat chunks)) < w"
  then have "range_up 0 (int (length (concat chunks)) - w + 1) h = []"
    by (intro range_up_done) simp
  then show "stream_segmentation sample_rate window_sec hop_sec chunks = Inr (Some [])"
    using stream_windows [OF assms, of chunks] by simp
next
  assume short: "0 < length (concat chunks) \<and> int (length (concat chunks)) < w"
  then show "iter_windows (concat chunks) w h =
      Inr [(0, concat chunks @ replicate (nat w - length (concat chunks)) 0)]"
    by (simp add: iter_windows_def)
qed

lemmas eval_defs = stream_segmentation_def StreamWindowProcessor_init_def
  sec_to_samples_def py_round_def push_def push_loop.simps py_slice_def slice_bound_def
  py_slice_from_def iter_windows_def py_range_def window_params_def

theorem streaming_matches_offline_witness:
  "window_params 4 1 (1 / 2) = Inr (4, 2) \<and> (2::int) \<le> 4
   \<and> (4::int) \<le> int (length (concat [[1, 2, 3], [], [4, 5], [6, 7, 8, 9, 10 :: int]]))
   \<and> (\<exists>ws. stream_segmentation 4 1 (1 / 2) [[1, 2, 3], [], [4, 5], [6, 7, 8, 9, 10 :: int]]
               = Inr (Some ws)
           \<and> iter_windows (concat [[1, 2, 3], [], [4, 5], [6, 7, 8, 9, 10 :: int]]) 4 2 = Inr ws)
   \<and> 0 < length (concat [[1], [], [2, 3 :: int]])
   \<and> int (length (concat [[1], [], [2, 3 :: int]])) < 4
   \<and> stream_segmentation 4 1 (1 / 2) [[1], [], [2, 3 :: int]] = Inr (Some [])
   \<and> iter_windows (concat [[1], [], [2, 3 :: int]]) 4 2 = Inr [(0, [1, 2, 3, 0])]"
proof -
  have wp: "window_params 4 1 (1 / 2) = Inr (4, 2)"
    by (simp add: window_params_def sec_to_samples_def py_round_def)
  have le: "(2::int) \<le> 4" by simp
  show ?thesis
    using streaming_matches_offline [OF wp le, of "[[1, 2, 3], [], [4, 5], [6, 7, 8, 9, 10]]"]
      streaming_matches_offline [OF wp le, of "[[1], [], [2, 3]]"] wp
    by (simp add: numeral_eq_Suc)
qed

text \<open>
  C1 as stated fails on a signal shorter than one window: with a window of 2 samples and
  a hop of 1, the one-sample signal \<open>[7]\<close> gives one zero-padded window offline and no
  window at all from the streaming processor, which never pads.
\<close>

theorem streaming_short_signal_counterexample:
  "window_params 2 1 (1 / 2) = Inr (2, 1)
   \<and> stream_segmentation 2 1 (1 / 2) [[7 :: int]] = Inr (Some [])
   \<and> iter_windows [7 :: int] 2 1 = Inr [(0, [7, 0])]"
  by (simp add: eval_defs)

text \<open>
  With a hop larger than the window, \<open>push\<close> trims more samples than the buffer holds
  and advances \<open>buffer_start\<close> past samples that have not arrived yet: the next window
  is cut from the wrong place. Here the window at start 5 holds samples 3 and 4.
\<close>

lemma streaming_hop_gt_window_trace:
  "window_params 1 2 5 = Inr (2, 5)
   \<and> stream_segmentation 1 2 5 [[0, 1, 2], [3, 4, 5, 6, 7, 8, 9 :: int]]
       = Inr (Some [(0, [0, 1]), (5, [3, 4])])
   \<and> iter_windows (concat [[0, 1, 2], [3, 4, 5, 6, 7, 8, 9 :: int]]) 2 5
       = Inr [(0, [0, 1]), (5, [5, 6])]"
  by (simp add: eval_defs range_up.simps)


section \<open>Alert segments\<close>

lemma update_cases:
  "snd (update tr ts te p sp) = close_segment tr te
   \<or> (snd (update tr ts te p sp) = accumulate tr
        \<and> (at_active tr \<or> at_above_sec tr + at_step_sec tr < at_hold_sec tr))
   \<or> (snd (update tr ts te p sp) = open_segment tr ts te
        \<and> \<not> at_active tr \<and> at_hold_sec tr \<le> at_above_sec tr + at_step_sec tr)"
  by (auto simp: update_def Let_def accumulate_def open_segment_def)

lemma close_segment_fields:
  "at_step_sec (close_segment tr te) = at_step_sec tr"
  "at_hold_sec (close_segment tr te) = at_hold_sec tr"
  "at_threshold (close_segment tr te) = at_threshold tr"
  "at_active (close_segment tr te) = False"
  "at_above_sec (close_segment tr te) = 0"
  "at_segments (close_segment tr te) =
     (if at_active tr then at_segments tr @ [\<lparr>start_sec = at_active_start tr, end_sec = te\<rparr>]
      else at_segments tr)"
  by (simp_all add: close_segment_def Let_def)

lemma accumulate_fields:
  "at_step_sec (accumulate tr) = at_step_sec tr"
  "at_hold_sec (accumulate tr) = at_hold_sec tr"
  "at_threshold (accumulate tr) = at_threshold tr"
  "at_active (accumulate tr) = at_active tr"
  "at_active_start (accumulate tr) = at_active_start tr"
  "at_above_sec (accumulate tr) = at_above_sec tr + at_step_sec tr"
  "at_segments (accumulate tr) = at_segments tr"
  by (simp_all add: accumulate_def)

lemma open_segment_fields:
  "at_step_sec (open_segment tr ts te) = at_step_sec tr"
  "at_hold_sec (open_segment tr ts te) = at_hold_sec tr"
  "at_threshold (open_segment tr ts te) = at_threshold tr"
  "at_active (open_segment tr ts te) = True"
  "at_active_start (open_segment tr ts te) = max ts (te - (at_above_sec tr + at_step_sec tr))"
  "at_above_sec (open_segment tr ts te) = at_above_sec tr + at_step_sec tr"
  "at_segments (open_segment tr ts te) = at_segments tr"
  by (simp_all add: open_segment_def accumulate_def)

lemma update_config:
  "at_step_sec (snd (update tr ts te p sp)) = at_step_sec tr"
  "at_hold_sec (snd (update tr ts te p sp)) = at_hold_sec tr"
  "at_threshold (snd (update tr ts te p sp)) = at_threshold tr"
  using update_cases [of tr ts te p sp]
  by (auto simp: close_segment_fields accumulate_fields open_segment_fields)


lemma update_rounded_exact: "update_rounded (\<lambda>x. x) tr ts te p sp = update tr ts te p sp"
  by (simp add: update_rounded_def update_def)
























text \<open>
  Some binary64 values.
\<close>

lemmas float64_values =
  float64_round_zero
  is_float64_of_int [of 1, simplified is_float64_def, simplified]
  is_float64_of_int [of 2, simplified is_float64_def, simplified]
  is_float64_of_int [of 3, simplified is_float64_def, simplified]
  is_float64_of_int [of 4, simplified is_float64_def, simplified]
  is_float64_of_int [of 5, simplified is_float64_def, simplified]
  is_float64_of_int [of 9, simplified is_float64_def, simplified]
  is_float64_of_int [of 10, simplified is_float64_def, simplified]
  is_float64_of_int [of 11, simplified is_float64_def, simplified]
  is_float64_of_int [of "- 1", simplified is_float64_def, simplified]
  is_float64_half [of 1, simplified is_float64_def, simplified]
  is_float64_half [of 21, simplified is_float64_def, simplified]




text \<open>
  The constructor accepts any step. With a negative \<open>step_sec\<close> (and a hold time below
  it) the estimated start lies after \<open>t_end\<close>, and the segment ends before it starts.
\<close>

lemma alert_negative_step_trace:
  "tracked_segments_rounded float64_round (AlertTracker_init (1 / 2) (- 5) (- 1))
       [(0, 1, Num 1, True)] 1
     = [\<lparr>start_sec = 2, end_sec = 1\<rparr>]"
  by (simp add: tracked_segments_rounded_def finalize_def update_rounded_def close_segment_def
      AlertTracker_init_def fl_le_def Let_def float64_values)

section \<open>Voice activity detection\<close>

lemma log10_eps: "log 10 default_eps = - 12"
proof -
  have "log 10 (1 / 10 ^ 12) = - log 10 (10 ^ 12)"
    by (simp add: log_divide)
  also have "log 10 (10 ^ 12 :: real) = real 12 * log 10 10"
    by (rule log_nat_power) simp
  also have "- (real 12 * log 10 10) = - 12"
    by simp
  finally show ?thesis by (simp only: default_eps_def)
qed

lemma sum_list_zero: "\<forall>x \<in> set xs. x = (0::real) \<Longrightarrow> sum_list (map (\<lambda>x. x * x) xs) = 0"
  by (induction xs) auto

lemma rms_db_zero:
  assumes "audio \<noteq> []" "\<forall>x \<in> set audio. x = 0"
  shows "rms_db audio default_eps = Num (- 240)"
proof -
  have "mean (map (\<lambda>x. x * x) audio) = 0"
    using sum_list_zero [OF assms(2)] by (simp add: mean_def)
  moreover have "0 < default_eps" by (simp add: default_eps_def)
  ultimately show ?thesis
    using assms(1) by (simp add: rms_db_def np_log10_def fl_scale_def log10_eps)
qed

text \<open>
  C6 (amended). A non-empty all-zero window has the level \<open>20 * log10 (0 + 1e-12)\<close>,
  which is \<open>-240\<close> dB, so \<open>is_speech_window\<close> returns false exactly for the thresholds
  \<open>threshold_db \<ge> -240\<close>; below \<open>-240\<close> dB it returns true.
\<close>

theorem zero_window_level:
  assumes "audio \<noteq> []" "\<forall>x \<in> set audio. x = 0"
  shows "rms_db audio default_eps = Num (- 240)
       \<and> (is_speech_window audio (Num threshold_db) \<longleftrightarrow> threshold_db < - 240)"
  using rms_db_zero [OF assms] by (simp add: is_speech_window_def)

text \<open>
  C6 as stated fails for a finite threshold below the floor that \<open>eps\<close> sets: at
  \<open>-300\<close> dB the all-zero window is classified as speech.
\<close>

theorem zero_window_counterexample: "is_speech_window [0, 0] (Num (- 300))"
  using rms_db_zero [of "[0, 0]"] by (simp add: is_speech_window_def)

lemma sin_shift_periods: "sin (x + real (2 * p) * pi) = sin x"
  by (simp only: sin_add sin_npi cos_npi) simp

lemma cos_sum_zero:
  assumes "0 < p" "2 * p < n"
  shows "(\<Sum>k<n. cos (real k * (4 * pi * real p / real n) + psi)) = 0"
proof -
  define a where "a = 4 * pi * real p / real n"
  define g where "g k = sin ((real k - 1 / 2) * a + psi)" for k :: nat
  have n0: "0 < real n" using assms by simp
  have step: "g (Suc k) - g k = 2 * sin (a / 2) * cos (real k * a + psi)" for k
  proof -
    have d: "((real (Suc k) - 1 / 2) * a + psi - ((real k - 1 / 2) * a + psi)) / 2 = a / 2"
      by (simp add: algebra_simps)
    have m: "((real (Suc k) - 1 / 2) * a + psi + ((real k - 1 / 2) * a + psi)) / 2
        = real k * a + psi"
      by (simp add: algebra_simps)
    show ?thesis
      unfolding g_def sin_diff_sin d m by simp
  qed
  have "2 * sin (a / 2) * (\<Sum>k<n. cos (real k * a + psi)) = (\<Sum>k<n. g (Suc k) - g k)"
    by (simp add: sum_distrib_left step)
  also have "\<dots> = g n - g 0"
    by (rule sum_lessThan_telescope)
  also have "\<dots> = 0"
  proof -
    have na: "real n * a = real (2 * p) * pi + real (2 * p) * pi"
      using n0 by (simp add: a_def)
    have "(real n - 1 / 2) * a + psi = (- (1 / 2) * a + psi) + real n * a"
      by (simp add: algebra_simps)
    also have "\<dots> = ((- (1 / 2) * a + psi) + real (2 * p) * pi) + real (2 * p) * pi"
      unfolding na by simp
    finally have "g n = sin (- (1 / 2) * a + psi)"
      unfolding g_def by (simp only: sin_shift_periods)
    moreover have "g 0 = sin (- (1 / 2) * a + psi)"
      by (simp add: g_def)
    ultimately show ?thesis by simp
  qed
  finally have z: "2 * sin (a / 2) * (\<Sum>k<n. cos (real k * a + psi)) = 0" .
  have half: "a / 2 = pi * (real (2 * p) / real n)"
    by (simp add: a_def)
  have r: "0 < real (2 * p) / real n" "real (2 * p) / real n < 1"
    using assms n0 by simp_all
  have "0 < pi * (real (2 * p) / real n)"
    using r(1) pi_gt_zero by (rule mult_pos_pos [rotated])
  moreover have "pi * (real (2 * p) / real n) < pi * 1"
    using r(2) pi_gt_zero by (rule mult_strict_left_mono)
  ultimately have "0 < a / 2" "a / 2 < pi"
    unfolding half by simp_all
  then have "0 < sin (a / 2)"
    by (rule sin_gt_zero)
  with z show ?thesis
    unfolding a_def by simp
qed

lemma sum_squares_sine_tone:
  assumes "0 < p" "2 * p < n"
  shows "sum_list (map (\<lambda>x. x * x) (sine_tone p n phase)) = real n / 2"
proof -
  have sq: "sin x * sin x = 1 / 2 - cos (2 * x) / 2" for x :: real
  proof -
    have "cos (2 * x) = 1 - 2 * (sin x * sin x)"
      using cos_double_sin [of x] by (simp add: power2_eq_square)
    then show ?thesis by (simp add: diff_divide_distrib)
  qed
  have arg: "2 * (2 * pi * real p * real k / real n + phase)
      = real k * (4 * pi * real p / real n) + 2 * phase" for k :: nat
    by (simp add: algebra_simps)
  have "sum_list (map (\<lambda>x. x * x) (sine_tone p n phase))
      = (\<Sum>k<n. 1 / 2 - cos (real k * (4 * pi * real p / real n) + 2 * phase) / 2)"
    unfolding sine_tone_def map_map comp_def sq arg
    by (simp only: interv_sum_list_conv_sum_set_nat) (simp add: atLeast0LessThan)
  also have "\<dots> = real n / 2
      - (\<Sum>k<n. cos (real k * (4 * pi * real p / real n) + 2 * phase)) / 2"
    by (simp add: sum_subtractf sum_divide_distrib)
  finally show ?thesis
    using cos_sum_zero [OF assms, of "2 * phase"] by simp
qed

lemma length_sine_tone: "length (sine_tone p n phase) = n"
  by (simp add: sine_tone_def)

lemma rms_db_sine_tone:
  assumes "0 < p" "2 * p < n"
  shows "rms_db (sine_tone p n phase) default_eps
    = Num (20 * log 10 (sqrt (1 / 2) + default_eps))"
proof -
  have n0: "0 < n" using assms by simp
  have m: "mean (map (\<lambda>x. x * x) (sine_tone p n phase)) = 1 / 2"
    using n0 by (simp add: mean_def sum_squares_sine_tone [OF assms] length_sine_tone)
  have pos: "0 < sqrt (1 / 2) + default_eps"
    by (simp add: default_eps_def add_pos_pos)
  show ?thesis
    unfolding rms_db_def Let_def m
    using n0 pos by (simp add: np_log10_def fl_scale_def length_sine_tone)
qed

lemma log10_2_upper: "log 10 2 \<le> 302 / 1000"
proof -
  have "real 1000 * log 10 2 = log 10 (2 ^ 1000)"
    by (rule log_nat_power [symmetric]) simp
  also have "\<dots> \<le> log 10 (10 ^ 302)"
    by (subst log_le_cancel_iff) simp_all
  also have "\<dots> = real 302 * log 10 10"
    by (rule log_nat_power) simp
  finally show ?thesis by simp
qed

lemma sine_level_lower: "- (302 / 100) < 20 * log 10 (sqrt (1 / 2) + default_eps)"
proof -
  have "log 10 (sqrt (1 / 2)) = - (log 10 2 / 2)"
    by (simp add: log_def ln_sqrt ln_div field_simps)
  then have "- (302 / 100) \<le> 20 * log 10 (sqrt (1 / 2))"
    using log10_2_upper by simp
  moreover have "log 10 (sqrt (1 / 2)) < log 10 (sqrt (1 / 2) + default_eps)"
    by (subst log_less_cancel_iff) (simp_all add: default_eps_def add_pos_pos)
  ultimately show ?thesis by simp
qed

lemma sine_level_upper: "20 * log 10 (sqrt (1 / 2) + default_eps) \<le> - 3"
proof -
  let ?y = "sqrt (1 / 2) + default_eps"
  have "sqrt (1 / 2) \<le> 70711 / 100000"
    by (rule real_le_lsqrt) (simp_all add: power2_eq_square)
  then have y: "?y \<le> 7072 / 10000" and pos: "0 < ?y"
    by (simp_all add: default_eps_def add_pos_pos)
  have nn: "0 \<le> ?y"
    using pos by (rule less_imp_le)
  have "real 20 * log 10 ?y = log 10 (?y ^ 20)"
    using nn by (intro log_nat_power [symmetric])
  also have "?y ^ 20 \<le> (7072 / 10000) ^ 20"
    using y nn by (rule power_mono)
  then have "log 10 (?y ^ 20) \<le> log 10 ((7072 / 10000) ^ 20)"
    using pos by (subst log_le_cancel_iff) simp_all
  also have "log 10 ((7072 / 10000) ^ 20) \<le> log 10 (1 / 10 ^ 3)"
  proof -
    have "(7072 / 10000 :: real) ^ 20 \<le> 1 / 10 ^ 3"
      by (simp add: power_divide)
    then show ?thesis
      by (subst log_le_cancel_iff) simp_all
  qed
  also have "log 10 (1 / 10 ^ 3) = - 3"
  proof -
    have "log 10 ((10::real) ^ 3) = real 3 * log 10 10"
      by (rule log_nat_power) simp
    then show ?thesis by (simp add: log_divide)
  qed
  finally show ?thesis by simp
qed

text \<open>
  C7 (amended). A window of \<open>n\<close> samples holding a whole number of periods of a sine tone
  at peak amplitude 1, with more than two samples to the period and any phase, has the
  RMS \<open>sqrt (1/2)\<close>, a level of about \<open>-3.01\<close> dB: it is classified as speech for every
  threshold \<open>threshold_db \<le> -3.02\<close>, and as non-speech for every threshold
  \<open>threshold_db \<ge> -3\<close>.
\<close>

theorem sine_tone_speech:
  assumes "0 < periods" "2 * periods < n"
  shows "(threshold_db \<le> - (302 / 100) \<longrightarrow>
            is_speech_window (sine_tone periods n phase) (Num threshold_db))
       \<and> (- 3 \<le> threshold_db \<longrightarrow>
            \<not> is_speech_window (sine_tone periods n phase) (Num threshold_db))"
  using sine_level_lower sine_level_upper
  by (simp add: is_speech_window_def rms_db_sine_tone [OF assms])

text \<open>
  C7 as stated fails at \<open>-1\<close> dB, a threshold below 0 dB: one period \<open>[0, 1, 0, -1]\<close> of
  the tone is classified as non-speech.
\<close>

theorem sine_tone_counterexample:
  "\<not> is_speech_window (sine_tone 1 4 0) (Num (- 1))"
  using sine_level_upper by (simp add: is_speech_window_def rms_db_sine_tone)

lemma sine_tone_one_period: "sine_tone 1 4 0 = [0, 1, 0, - 1]"
proof -
  have u: "[0..<4] = [0, 1, 2, 3 :: nat]"
    by (simp add: upt_rec)
  have "pi * 3 / 2 = 3 / 2 * pi"
    by simp
  then have s3: "sin (pi * 3 / 2) = - 1"
    by (simp only: sin_3over2_pi)
  show ?thesis
    unfolding sine_tone_def u using s3 by simp
qed

theorem zero_window_level_witness:
  "[0, 0, 0 :: real] \<noteq> [] \<and> set [0, 0, 0 :: real] = {0}
   \<and> rms_db [0, 0, 0] default_eps = Num (- 240)
   \<and> \<not> is_speech_window [0, 0, 0] (Num (- 45))"
proof -
  have ne: "[0, 0, 0 :: real] \<noteq> []" by simp
  have z: "\<forall>x \<in> set [0, 0, 0 :: real]. x = 0" by simp
  show ?thesis
    using zero_window_level [OF ne z, of "- 45"] by simp
qed

theorem sine_tone_speech_witness:
  "(0::nat) < 2 \<and> (2 * 2 :: nat) < 5 \<and> (- 45 :: real) \<le> - (302 / 100)
   \<and> is_speech_window (sine_tone 2 5 (1 / 3)) (Num (- 45))
   \<and> (- 3 :: real) \<le> - 2 \<and> \<not> is_speech_window (sine_tone 2 5 (1 / 3)) (Num (- 2))"
proof -
  have p: "(0::nat) < 2" by simp
  have n: "(2 * 2 :: nat) < 5" by simp
  show ?thesis
    using sine_tone_speech [OF p n, of "- 45" "1 / 3"] sine_tone_speech [OF p n, of "- 2" "1 / 3"]
    by simp
qed

section \<open>Heuristic backend\<close>

lemmas heur_defs = heuristic_p_fake_def heuristic_reasons_def dict_get_def clamp_def py_min_def py_max_def
  fl_sub_def fl_scale_def sigmoid_def fl_exp_def Let_def

lemma sigmoid_range:
  "\<not> 1 + exp (x::real) < 0" "\<not> 1 < 1 / (1 + exp (x::real))"
proof -
  have pos: "0 < exp x" by simp
  then show "\<not> 1 + exp x < 0" by linarith
  have "1 \<le> 1 + exp x" using pos by linarith
  then have "1 / (1 + exp x) \<le> 1 / 1"
    by (rule divide_left_mono) (use pos in \<open>simp_all add: add_pos_pos\<close>)
  then have "1 / (1 + exp x) \<le> 1" by simp
  then show "\<not> 1 < 1 / (1 + exp x)" by linarith
qed

lemma healthy_value:
  "fst (heuristic_p_fake [''hf_energy_ratio'' \<mapsto> Num (10 / 100),
         ''spectral_rolloff_hz'' \<mapsto> Num 5000, ''spectral_flatness'' \<mapsto> Num (20 / 100)])
   = Num (1 / (1 + exp (- ((50 / 100 * 0 + 35 / 100 * 0 + 15 / 100 * 0 - 35 / 100) * 7))))"
  by (simp add: heur_defs sigmoid_range)

lemma suspicious_value:
  "fst (heuristic_p_fake [''hf_energy_ratio'' \<mapsto> Num 0,
         ''spectral_rolloff_hz'' \<mapsto> Num 1000, ''spectral_flatness'' \<mapsto> Num (2 / 100)])
   = Num (1 / (1 + exp (- ((50 / 100 * 1 + 35 / 100 * (3200 / 4200) + 15 / 100
            * ((10 / 100) / (12 / 100)) - 35 / 100) * 7))))"
  by (simp add: heur_defs sigmoid_range)

lemma healthy_bound: "1 / (1 + exp (- ((50 / 100 * 0 + 35 / 100 * 0 + 15 / 100 * 0 - 35 / 100) * 7))) < (3 / 10 :: real)"
proof -
  have "1 + (245 / 100 :: real) \<le> exp (245 / 100)"
    by (rule exp_ge_add_one_self)
  then have "(10 / 3 :: real) < 1 + exp (245 / 100)" by simp
  then have "1 / (1 + exp (245 / 100)) < 1 / (10 / 3 :: real)"
    by (intro divide_strict_left_mono) (simp_all add: add_pos_pos)
  then show ?thesis by simp
qed

lemma suspicious_bound: "(7 / 10 :: real) < 1 / (1 + exp (- ((50 / 100 * 1 + 35 / 100 * (3200 / 4200) + 15 / 100
            * ((10 / 100) / (12 / 100)) - 35 / 100) * 7)))"
proof -
  have e: "(50 / 100 * 1 + 35 / 100 * (3200 / 4200) + 15 / 100
            * ((10 / 100) / (12 / 100)) - 35 / 100) * 7 = (91 / 24 :: real)"
    by simp
  have "1 + (91 / 24 :: real) \<le> exp (91 / 24)"
    by (rule exp_ge_add_one_self)
  then have "exp (- (91 / 24 :: real)) \<le> 1 / (1 + 91 / 24)"
    by (simp add: exp_minus field_simps)
  then have "1 + exp (- (91 / 24 :: real)) < 10 / 7" by simp
  then have "1 / (10 / 7 :: real) < 1 / (1 + exp (- (91 / 24)))"
    by (intro divide_strict_left_mono) (simp_all add: add_pos_pos)
  then show ?thesis unfolding e by simp
qed

text \<open>
  C8. On the indicators \<open>hf_energy_ratio = 0.10\<close>, \<open>spectral_rolloff_hz = 5000\<close>,
  \<open>spectral_flatness = 0.20\<close> all three deficiency scores are 0 and \<open>heuristic_p_fake\<close>
  returns the sigmoid of \<open>(0 - 0.35) * 7\<close>, which is below 0.3. On \<open>hf_energy_ratio = 0\<close>,
  \<open>spectral_rolloff_hz = 1000\<close>, \<open>spectral_flatness = 0.02\<close> the scores are 1, 3200/4200
  and 0.10/0.12, and it returns the sigmoid of
  \<open>(0.50 * 1 + 0.35 * 3200/4200 + 0.15 * 0.10/0.12 - 0.35) * 7\<close>, which is above 0.7.
\<close>

theorem heuristic_p_fake_examples:
  "fst (heuristic_p_fake [''hf_energy_ratio'' \<mapsto> Num (10 / 100),
         ''spectral_rolloff_hz'' \<mapsto> Num 5000, ''spectral_flatness'' \<mapsto> Num (20 / 100)])
     = Num (1 / (1 + exp (- ((50 / 100 * 0 + 35 / 100 * 0 + 15 / 100 * 0 - 35 / 100) * 7))))
   \<and> fl_less (fst (heuristic_p_fake [''hf_energy_ratio'' \<mapsto> Num (10 / 100),
         ''spectral_rolloff_hz'' \<mapsto> Num 5000, ''spectral_flatness'' \<mapsto> Num (20 / 100)]))
        (Num (3 / 10))
   \<and> fst (heuristic_p_fake [''hf_energy_ratio'' \<mapsto> Num 0,
         ''spectral_rolloff_hz'' \<mapsto> Num 1000, ''spectral_flatness'' \<mapsto> Num (2 / 100)])
     = Num (1 / (1 + exp (- ((50 / 100 * 1 + 35 / 100 * (3200 / 4200) + 15 / 100
            * ((10 / 100) / (12 / 100)) - 35 / 100) * 7))))
   \<and> fl_less (Num (7 / 10))
        (fst (heuristic_p_fake [''hf_energy_ratio'' \<mapsto> Num 0,
         ''spectral_rolloff_hz'' \<mapsto> Num 1000, ''spectral_flatness'' \<mapsto> Num (2 / 100)]))"
  unfolding healthy_value suspicious_value
  using healthy_bound suspicious_bound by simp

section \<open>Resampling\<close>

lemma float32_round_zero [simp]: "float32_round 0 = 0"
  by (simp add: float32_round_def float_round_def)

lemma powr_minus_23: "2 powr (- 23) = (1 / 8388608 :: real)"
  by (simp add: powr_minus powr_numeral inverse_eq_divide)

lemma float32_round_one [simp]: "float32_round 1 = 1"
  by (simp add: float32_round_def float_round_def py_round_def Let_def powr_minus_23)

lemma floor_log_above_one: "\<lfloor>log 2 (1073741825 / 1073741824 :: real)\<rfloor> = 0"
proof -
  have a: "0 \<le> log 2 (1073741825 / 1073741824 :: real)"
    by (subst le_log_iff) simp_all
  have b: "log 2 (1073741825 / 1073741824 :: real) < 1"
    by (subst log_less_iff) simp_all
  show ?thesis using a b by (simp add: floor_eq_iff)
qed

lemma float32_round_above_one: "float32_round (1073741825 / 1073741824) = 1"
proof -
  have "\<lfloor>(1073741825 / 128 :: real)\<rfloor> = 8388608"
    by (simp add: floor_eq_iff)
  then show ?thesis
    by (simp add: float32_round_def float_round_def py_round_def Let_def
        floor_log_above_one powr_minus_23)
qed

lemma astype_float32_id:
  "(astype_float32 audio = audio) = (\<forall>x \<in> set audio. is_float32 x)"
  by (induction audio) (simp_all add: astype_float32_def is_float32_def)

text \<open>
  C9. Resampling a signal from a sample rate to the same sample rate returns the signal
  converted to float32, whatever the signal and the rate, and whether or not scipy is
  available; the signal itself is returned exactly when every sample of it is a float32
  value.
\<close>

theorem resample_identity:
  "resample_audio ext audio sr sr = Inr (astype_float32 audio)
   \<and> ((resample_audio ext audio sr sr = Inr audio) = (\<forall>x \<in> set audio. is_float32 x))"
  by (simp add: resample_audio_def astype_float32_id)

theorem resample_identity_witness:
  "is_float32 1 \<and> is_float32 0
   \<and> resample_audio (example_externals (Inl ExternalError)) [1, 0] 16000 16000 = Inr [1, 0]"
  using resample_identity [of "example_externals (Inl ExternalError)" "[1, 0]" 16000]
  by (simp add: is_float32_def astype_float32_def)

text \<open>
  The sample \<open>1 + 2^-30\<close> is a float64 value and not a float32 value: a signal holding
  it comes back from \<open>resample_audio\<close> at equal rates holding 1.
\<close>

theorem resample_identity_counterexample:
  "resample_audio (example_externals (Inl ExternalError)) [1073741825 / 1073741824]
       16000 16000 = Inr [1]
   \<and> [1] \<noteq> [1073741825 / 1073741824 :: real]"
  by (simp add: resample_audio_def astype_float32_def float32_round_above_one)

section \<open>The voice-activity gate of the engine\<close>

text \<open>
  When the voice-activity gate of \<open>infer_window\<close> classifies the window as non-speech
  and the engine has no enhancer, or the enhancer's \<open>update_noise\<close> returns,
  \<open>infer_window\<close> returns a result with \<open>is_speech\<close> false, \<open>p_fake\<close> and \<open>p_fake_smooth\<close>
  not-a-number, confidence 0, the raw indicators and no reasons; no inference backend is
  called and the moving average is untouched.
\<close>

lemma infer_window_non_speech_returns:
  assumes "vad_gate ext eng audio orig_sr = Inr (audio_rs, raw_indicators, level, False)"
    and "eng_enhancer eng = None
         \<or> (\<exists>enh enh'. eng_enhancer eng = Some enh
                \<and> update_noise ext enh audio_rs = Inr enh')"
  shows "\<exists>eng'. infer_window ext eng audio orig_sr =
            Inr (\<lparr>ir_p_fake = NaN, ir_p_fake_smooth = NaN, ir_confidence = Num 0,
                  ir_is_speech = False, ir_indicators = raw_indicators, ir_reasons = []\<rparr>,
                 eng')
          \<and> eng_backend_calls eng' = eng_backend_calls eng
          \<and> eng_ema eng' = eng_ema eng"
  using assms by (auto simp: infer_window_def)

text \<open>
  \<open>update_noise\<close> returns when noise reduction is off, when the band-pass filter is off,
  and when \<open>sosfilt\<close> returns on the window.
\<close>

lemma update_noise_returns:
  assumes "\<not> enh_noise_reduction enh \<or> \<not> enh_bandpass enh \<or> enh_sos enh = None
           \<or> (\<forall>sos state. \<exists>r. ext_sosfilt ext sos state (astype_float32 audio) = Inr r)"
  shows "\<exists>enh'. update_noise ext enh audio = Inr enh'"
proof (cases "enh_noise_reduction enh \<and> enh_bandpass enh \<and> enh_sos enh \<noteq> None")
  case False
  then show ?thesis
    by (auto simp: update_noise_def apply_bandpass_def)
next
  case True
  then obtain sos where sos: "enh_sos enh = Some sos" by auto
  let ?state = "case enh_sos_state enh of
                  None \<Rightarrow> ext_sosfilt_zi ext sos
                            (if length (astype_float32 audio) \<noteq> 0
                             then hd (astype_float32 audio) else 0)
                | Some st \<Rightarrow> st"
  from assms True obtain y state' where
    "ext_sosfilt ext sos ?state (astype_float32 audio) = Inr (y, state')"
    by (metis surj_pair)
  with True sos show ?thesis
    by (simp add: update_noise_def apply_bandpass_def Let_def)
qed

text \<open>
  C5. An engine built with the enhancer enabled (band-pass filter and noise reduction
  at their defaults, on) is given an empty window. The gate classifies the window as
  non-speech, at level minus infinity, and \<open>infer_window\<close> raises \<open>ValueError\<close>:
  \<open>update_noise\<close> passes the empty window to \<open>sosfilt\<close>, which raises on it.
\<close>

theorem infer_window_empty_window_raises:
  "vad_gate (example_externals (Inl ExternalError))
      (VoiceGuardEngine_init (example_config\<lparr>cfg_enhance_enabled := True\<rparr>) Hf [] ())
      (Arr1 []) 4 =
     Inr ([], [''rms_db'' \<mapsto> NInf, ''zcr'' \<mapsto> Num 0,
               ''spectral_centroid_hz'' \<mapsto> Num 0, ''spectral_bandwidth_hz'' \<mapsto> Num 0,
               ''spectral_rolloff_hz'' \<mapsto> Num 0, ''hf_energy_ratio'' \<mapsto> Num 0,
               ''spectral_flatness'' \<mapsto> Num 0], NInf, False)
   \<and> infer_window (example_externals (Inl ExternalError))
       (VoiceGuardEngine_init (example_config\<lparr>cfg_enhance_enabled := True\<rparr>) Hf [] ())
       (Arr1 []) 4 = Inl ValueError"
proof -
  have gate: "vad_gate (example_externals (Inl ExternalError))
      (VoiceGuardEngine_init (example_config\<lparr>cfg_enhance_enabled := True\<rparr>) Hf [] ())
      (Arr1 []) 4 =
     Inr ([], [''rms_db'' \<mapsto> NInf, ''zcr'' \<mapsto> Num 0,
               ''spectral_centroid_hz'' \<mapsto> Num 0, ''spectral_bandwidth_hz'' \<mapsto> Num 0,
               ''spectral_rolloff_hz'' \<mapsto> Num 0, ''hf_energy_ratio'' \<mapsto> Num 0,
               ''spectral_flatness'' \<mapsto> Num 0], NInf, False)"
    by (simp add: vad_gate_def preprocess_audio_def to_mono_def resample_audio_def
        astype_float32_def extract_indicators_def spectral_indicators_def rms_db_def
        zero_crossing_rate_def VoiceGuardEngine_init_def example_config_def dict_get_def
        Let_def)
  have "infer_window (example_externals (Inl ExternalError))
       (VoiceGuardEngine_init (example_config\<lparr>cfg_enhance_enabled := True\<rparr>) Hf [] ())
       (Arr1 []) 4 = Inl ValueError"
    unfolding infer_window_def gate
    by (simp add: VoiceGuardEngine_init_def AudioEnhancer_init_def example_config_def
        update_noise_def apply_bandpass_def astype_float32_def example_externals_def)
  with gate show ?thesis by simp
qed

text \<open>
  With the same engine a window of four zeros, non-speech as well, is handled: the result
  is returned and the noise profile is set.
\<close>

lemma infer_window_zero_window_returns:
  "\<exists>eng'. infer_window (example_externals (Inl ExternalError))
       (VoiceGuardEngine_init (example_config\<lparr>cfg_enhance_enabled := True\<rparr>) Hf [] ())
       (Arr1 [0, 0, 0, 0]) 4 =
     Inr (\<lparr>ir_p_fake = NaN, ir_p_fake_smooth = NaN, ir_confidence = Num 0,
           ir_is_speech = False,
           ir_indicators = [''rms_db'' \<mapsto> Num (- 240), ''zcr'' \<mapsto> Num 0],
           ir_reasons = []\<rparr>, eng')
     \<and> eng_backend_calls eng' = 0 \<and> eng_ema eng' = None"
proof -
  have lvl: "rms_db [0, 0, 0, 0] default_eps = Num (- 240)"
    by (rule rms_db_zero) simp_all
  have gate: "vad_gate (example_externals (Inl ExternalError))
      (VoiceGuardEngine_init (example_config\<lparr>cfg_enhance_enabled := True\<rparr>) Hf [] ())
      (Arr1 [0, 0, 0, 0]) 4 =
     Inr ([0, 0, 0, 0], [''rms_db'' \<mapsto> Num (- 240), ''zcr'' \<mapsto> Num 0], Num (- 240),
          False)"
    using lvl
    by (simp add: vad_gate_def preprocess_audio_def to_mono_def resample_audio_def
        astype_float32_def extract_indicators_def spectral_indicators_def
        example_externals_def VoiceGuardEngine_init_def example_config_def
        zero_crossing_rate_def mean_def dict_get_def Let_def)
  have ret: "\<exists>enh'. update_noise (example_externals (Inl ExternalError))
       (AudioEnhancer_init (example_config\<lparr>cfg_enhance_enabled := True\<rparr>) ())
       [0, 0, 0, 0] = Inr enh'"
    by (rule update_noise_returns)
      (simp add: example_externals_def astype_float32_def)
  show ?thesis
    using infer_window_non_speech_returns [OF gate] ret
    by (auto simp: VoiceGuardEngine_init_def example_config_def)
qed


section \<open>Offline analysis\<close>

lemma analysis_loop_calls:
  "analysis_loop ext use_raw sr w eng alert windows wins = Inr (eng', alert', windows') \<Longrightarrow>
   \<exists>new. windows' = windows @ new \<and> length new = length wins
      \<and> alert' = run_updates alert (map (alert_call use_raw) new)"
proof (induction wins arbitrary: eng alert windows)
  case Nil
  then show ?case by simp
next
  case (Cons sw wins)
  obtain start win where sw: "sw = (start, win)" by (cases sw) auto
  from Cons.prems have sr: "sr \<noteq> 0"
    by (auto simp: sw split: if_splits)
  let ?ts = "real_of_int start / real_of_int sr"
  let ?te = "real_of_int (start + w) / real_of_int sr"
  from Cons.prems sr obtain result eng1 where
    inf: "infer_window ext eng (Arr1 win) sr = Inr (result, eng1)"
    by (auto simp: sw Let_def split: sum.splits)
  let ?score = "\<lparr>ws_t_start = ?ts, ws_t_end = ?te, ws_result = result\<rparr>"
  let ?alert = "if ir_is_speech result then
                  snd (update alert ?ts ?te
                         (if use_raw then ir_p_fake result else ir_p_fake_smooth result) True)
                else snd (update alert ?ts ?te (Num 0) False)"
  have step: "analysis_loop ext use_raw sr w eng1 ?alert (windows @ [?score]) wins
      = Inr (eng', alert', windows')"
    using Cons.prems sr inf by (auto simp: sw Let_def split: if_splits)
  from Cons.IH [OF step] obtain new where new: "windows' = (windows @ [?score]) @ new"
    "length new = length wins" "alert' = run_updates ?alert (map (alert_call use_raw) new)"
    by blast
  have one: "run_updates alert [alert_call use_raw ?score] = ?alert"
    by (simp add: alert_call_def)
  have "alert' = run_updates alert (map (alert_call use_raw) (?score # new))"
    using new(3) one by (simp add: alert_call_def)
  then show ?case
    using new(1,2) by (intro exI [of _ "?score # new"]) simp
qed

lemma hold_inv_update: "hold_inv tr \<Longrightarrow> hold_inv (snd (update tr ts te p sp))"
  using update_cases [of tr ts te p sp]
  by (auto simp: hold_inv_def close_segment_fields accumulate_fields open_segment_fields)

lemma has_alert_update: "has_alert tr \<Longrightarrow> has_alert (snd (update tr ts te p sp))"
  using update_cases [of tr ts te p sp]
  by (auto simp: has_alert_def close_segment_fields accumulate_fields open_segment_fields
      split: if_splits)

lemma update_opens:
  "hold_inv tr \<Longrightarrow> fl_le (Num (at_threshold tr)) p \<Longrightarrow>
   at_active (snd (update tr ts te p True))"
  by (auto simp: hold_inv_def update_def Let_def)

lemma update_threshold: "at_threshold (snd (update tr ts te p sp)) = at_threshold tr"
  by (rule update_config)

lemma run_updates_has_alert: "has_alert tr \<Longrightarrow> has_alert (run_updates tr calls)"
  by (induction calls arbitrary: tr) (auto simp: has_alert_update)

lemma run_updates_opens:
  "hold_inv tr \<Longrightarrow>
   \<exists>c \<in> set calls. snd (snd (snd c)) \<and> fl_le (Num (at_threshold tr)) (fst (snd (snd c))) \<Longrightarrow>
   has_alert (run_updates tr calls)"
proof (induction calls arbitrary: tr)
  case Nil
  then show ?case by simp
next
  case (Cons c calls)
  obtain ts te p sp where c: "c = (ts, te, p, sp)" by (cases c) auto
  let ?tr = "snd (update tr ts te p sp)"
  have inv': "hold_inv ?tr" using Cons.prems(1) by (rule hold_inv_update)
  show ?case
  proof (cases "sp \<and> fl_le (Num (at_threshold tr)) p")
    case True
    then have "at_active ?tr"
      using update_opens [OF Cons.prems(1), of p ts te] by simp
    then have "has_alert ?tr" by (simp add: has_alert_def)
    then show ?thesis
      using run_updates_has_alert by (simp add: c)
  next
    case False
    then have "\<exists>c \<in> set calls. snd (snd (snd c))
        \<and> fl_le (Num (at_threshold ?tr)) (fst (snd (snd c)))"
      using Cons.prems(2) by (auto simp: c update_threshold)
    then show ?thesis
      using Cons.IH [OF inv'] by (simp add: c)
  qed
qed

lemma finalize_has_alert: "has_alert tr \<Longrightarrow> at_segments (finalize tr t) \<noteq> []"
  by (auto simp: has_alert_def finalize_def close_segment_fields)

lemma run_updates_config:
  "at_hold_sec (run_updates tr calls) = at_hold_sec tr"
  "at_step_sec (run_updates tr calls) = at_step_sec tr"
  "at_threshold (run_updates tr calls) = at_threshold tr"
  by (induction calls arbitrary: tr) (auto simp: update_config)

lemma analysis_pass_alert:
  assumes "analysis_pass ext audio orig_sr config source_kind selected note fresh =
             Inr (audio_rs, total_windows, engine, alert, windows)"
  shows "at_segments alert =
           tracked_segments
             (AlertTracker_init (cfg_alert_threshold config)
                (if str_lower source_kind = ''file''
                 then min (cfg_alert_hold_sec config) (cfg_hop_sec config)
                 else cfg_alert_hold_sec config)
                (cfg_hop_sec config))
             (map (alert_call (str_lower source_kind = ''file'')) windows)
             (ws_t_end (last windows))"
proof -
  let ?hold = "if str_lower source_kind = ''file''
     then min (cfg_alert_hold_sec config) (cfg_hop_sec config) else cfg_alert_hold_sec config"
  let ?ini = "AlertTracker_init (cfg_alert_threshold config) ?hold (cfg_hop_sec config)"
  let ?raw = "str_lower source_kind = ''file''"
  from assms obtain w h wins eng0 engine' alert' where
    loop: "analysis_loop ext ?raw (cfg_sample_rate config) w eng0 ?ini [] wins
             = Inr (engine', alert', windows)"
    and fin: "alert = (if windows \<noteq> [] then finalize alert' (ws_t_end (last windows))
                       else alert')"
    by (auto simp: analysis_pass_def Let_def split: sum.splits prod.splits)
  from analysis_loop_calls [OF loop]
  have run: "alert' = run_updates ?ini (map (alert_call ?raw) windows)"
    by auto
  show ?thesis
  proof (cases "windows = []")
    case True
    then show ?thesis
      using fin run
      by (simp add: tracked_segments_def finalize_def close_segment_fields
          AlertTracker_init_def)
  next
    case False
    then show ?thesis
      using fin run by (simp add: tracked_segments_def)
  qed
qed

text \<open>
  C10. When \<open>analyze_audio\<close> is called with the source kind \<open>file\<close> and the analysis of
  the windows does not raise, the alert segments of the result are those of a tracker
  built with the hold time \<open>min alert_hold_sec hop_sec\<close> and the step \<open>hop_sec\<close>, updated
  for every speech window with the raw \<open>p_fake\<close> and finalized at the end of the last
  window. If one speech window has \<open>p_fake\<close> at or above the alert threshold, the result
  has an alert segment, whatever \<open>alert_hold_sec\<close> is.
\<close>

theorem file_mode_alerts:
  assumes "str_lower source_kind = ''file''"
    and "analysis_pass ext audio orig_sr config source_kind selected note fresh =
           Inr (audio_rs, total_windows, engine, alert, windows)"
  shows "\<exists>res. analyze_audio ext audio orig_sr config source_kind source selected note fresh
                 created_at = Inr res
          \<and> ar_windows res = windows
          \<and> as_alert_segments (ar_summary res) =
              tracked_segments
                (AlertTracker_init (cfg_alert_threshold config)
                   (min (cfg_alert_hold_sec config) (cfg_hop_sec config))
                   (cfg_hop_sec config))
                (map (alert_call True) windows)
                (ws_t_end (last windows))
          \<and> ((\<exists>w \<in> set windows. ir_is_speech (ws_result w)
                  \<and> fl_le (Num (cfg_alert_threshold config)) (ir_p_fake (ws_result w)))
               \<longrightarrow> as_alert_segments (ar_summary res) \<noteq> [])"
proof -
  let ?ini = "AlertTracker_init (cfg_alert_threshold config)
                (min (cfg_alert_hold_sec config) (cfg_hop_sec config)) (cfg_hop_sec config)"
  let ?calls = "map (alert_call True) windows"
  let ?res = "summarize ext config source_kind source created_at audio_rs total_windows
                engine alert windows"
  have res: "analyze_audio ext audio orig_sr config source_kind source selected note fresh
               created_at = Inr ?res"
    using assms(2) by (simp add: analyze_audio_def)
  have segs: "as_alert_segments (ar_summary ?res) = at_segments alert"
    and wins: "ar_windows ?res = windows"
    by (simp_all add: summarize_def Let_def)
  have tracked: "at_segments alert = tracked_segments ?ini ?calls (ws_t_end (last windows))"
    using analysis_pass_alert [OF assms(2)] assms(1) by simp
  have opens: "tracked_segments ?ini ?calls (ws_t_end (last windows)) \<noteq> []"
    if w: "\<exists>w \<in> set windows. ir_is_speech (ws_result w)
             \<and> fl_le (Num (cfg_alert_threshold config)) (ir_p_fake (ws_result w))"
  proof -
    have inv: "hold_inv ?ini"
      by (simp add: hold_inv_def AlertTracker_init_def)
    have thr: "at_threshold ?ini = cfg_alert_threshold config"
      by (simp add: AlertTracker_init_def)
    from w obtain w0 where w0: "w0 \<in> set windows" "ir_is_speech (ws_result w0)"
      "fl_le (Num (cfg_alert_threshold config)) (ir_p_fake (ws_result w0))"
      by blast
    have "alert_call True w0 \<in> set ?calls"
      using w0(1) by simp
    moreover have "snd (snd (snd (alert_call True w0)))
        \<and> fl_le (Num (at_threshold ?ini)) (fst (snd (snd (alert_call True w0))))"
      using w0(2,3) by (simp add: alert_call_def thr)
    ultimately have "\<exists>c \<in> set ?calls. snd (snd (snd c))
        \<and> fl_le (Num (at_threshold ?ini)) (fst (snd (snd c)))"
      by blast
    then have "has_alert (run_updates ?ini ?calls)"
      using inv by (intro run_updates_opens)
    then show ?thesis
      unfolding tracked_segments_def by (rule finalize_has_alert)
  qed
  show ?thesis
    using res wins segs tracked opens by (intro exI [of _ ?res]) simp
qed





section \<open>An example analysis\<close>

lemma example_level_pos: "0 < example_level"
proof -
  have "(1::real) < 1 + default_eps" by (simp add: default_eps_def)
  then have "0 < log 10 (1 + default_eps)" by simp
  then show ?thesis by (simp add: example_level_def)
qed

lemma rms_db_ones:
  "audio \<noteq> [] \<Longrightarrow> \<forall>x \<in> set audio. x = 1 \<Longrightarrow> rms_db audio default_eps = Num example_level"
proof -
  assume ne: "audio \<noteq> []" and one: "\<forall>x \<in> set audio. x = 1"
  have "sum_list (map (\<lambda>x. x * x) audio) = real (length audio)"
    using one by (induction audio) auto
  then have m: "mean (map (\<lambda>x. x * x) audio) = 1"
    using ne by (simp add: mean_def)
  have pos: "0 < 1 + default_eps" by (simp add: default_eps_def)
  show ?thesis
    unfolding rms_db_def Let_def m
    using ne pos by (simp add: np_log10_def fl_scale_def example_level_def)
qed

lemmas infer_defs = infer_window_def vad_gate_def preprocess_audio_def to_mono_def
  resample_audio_def astype_float32_def extract_indicators_def spectral_indicators_def infer_speech_def
  run_backend_def heuristic_reasons_def dict_get_def clamp_def py_max_def py_min_def
  fl_sub_def fl_scale_def fl_abs_def example_externals_def example_result_def
  zero_crossing_rate_def mean_def Let_def

lemma example_infer_window:
  assumes "ema = None \<or> ema = Some (Num (6 / 10))"
  shows "infer_window (example_externals long_clip) (example_engine Hf None n ema) (Arr1 [1, 1, 1, 1]) 4 =
     Inr (example_result (6 / 10), example_engine Hf None (Suc n) (Some (Num (6 / 10))))"
proof -
  have lvl: "rms_db [1, 1, 1, 1] default_eps = Num example_level"
    by (rule rms_db_ones) simp_all
  show ?thesis
    using assms example_level_pos
    by (auto simp: infer_defs lvl example_engine_def)
qed


lemma example_engine_reset:
  "reset_state (example_externals long_clip) (VoiceGuardEngine_init example_config Hf [] ())
     = example_engine Hf None 0 None"
  by (simp add: reset_state_def VoiceGuardEngine_init_def example_config_def example_engine_def)

lemma example_iter_windows:
  "iter_windows [1, 1, 1, 1, 1, 1 :: real] 4 2 = Inr [(0, [1, 1, 1, 1]), (2, [1, 1, 1, 1])]"
  by (simp add: iter_windows_def py_range_def range_up.simps py_slice_def slice_bound_def)

lemma example_result_fields:
  "ir_is_speech (example_result p)" "ir_p_fake (example_result p) = Num p"
  by (simp_all add: example_result_def)

lemma example_loop:
  "analysis_loop (example_externals long_clip) True 4 4 (example_engine Hf None 0 None)
     (AlertTracker_init (1 / 2) (1 / 2) (1 / 2)) []
     [(0, [1, 1, 1, 1]), (2, [1, 1, 1, 1])]
   = Inr (example_engine Hf None 2 (Some (Num (6 / 10))),
          \<lparr>at_threshold = 1 / 2, at_hold_sec = 1 / 2, at_step_sec = 1 / 2, at_above_sec = 1,
            at_active = True, at_active_start = 1 / 2, at_segments = []\<rparr>,
          example_windows)"
proof -
  have i0: "infer_window (example_externals long_clip) (example_engine Hf None 0 None) (Arr1 [1, 1, 1, 1]) 4
      = Inr (example_result (3 / 5), example_engine Hf None (Suc 0) (Some (Num (3 / 5))))"
    using example_infer_window [where ema = None and n = 0] by simp
  have i1: "infer_window (example_externals long_clip) (example_engine Hf None (Suc 0) (Some (Num (3 / 5))))
        (Arr1 [1, 1, 1, 1]) 4
      = Inr (example_result (3 / 5), example_engine Hf None 2 (Some (Num (3 / 5))))"
    using example_infer_window [where ema = "Some (Num (6 / 10))" and n = "Suc 0"] by (simp add: numeral_2_eq_2)
  show ?thesis
    by (simp add: i0 i1 example_result_fields example_windows_def
        update_def AlertTracker_init_def fl_le_def Let_def)
qed

lemma example_pass:
  "analysis_pass (example_externals long_clip) (Arr1 [1, 1, 1, 1, 1, 1]) 4 example_config ''file'' Hf [] ()
   = Inr ([1, 1, 1, 1, 1, 1], 2, example_engine Hf None 2 (Some (Num (6 / 10))),
          example_alert, example_windows)"
proof -
  have cfg: "cfg_sample_rate example_config = 4" "cfg_window_sec example_config = 1"
    "cfg_hop_sec example_config = 1 / 2" "cfg_alert_threshold example_config = 1 / 2"
    "cfg_alert_hold_sec example_config = 3"
    by (simp_all add: example_config_def)
  have wp: "window_params 4 1 (1 / 2) = Inr (4, 2)"
    by (simp add: window_params_def sec_to_samples_def py_round_def)
  have pre: "preprocess_audio (example_externals long_clip) (Arr1 [1, 1, 1, 1, 1, 1]) 4 4 False
      = Inr [1, 1, 1, 1, 1, 1]"
    by (simp add: preprocess_audio_def to_mono_def resample_audio_def astype_float32_def)
  have low: "str_lower ''file'' = ''file''"
    by (simp add: str_lower_def ascii_lower_def)
  have ne: "example_windows \<noteq> []" and lst: "ws_t_end (last example_windows) = 3 / 2"
    by (simp_all add: example_windows_def)
  have hold: "min (3::real) (1 / 2) = 1 / 2"
    by simp
  show ?thesis
    unfolding analysis_pass_def Let_def cfg pre wp low example_engine_reset
    by (simp only: sum.case prod.case if_True hold example_iter_windows example_loop refl)
      (simp add: estimate_num_windows_def ne lst finalize_def close_segment_def
        example_alert_def)
qed






theorem file_mode_alerts_witness:
  "str_lower ''file'' = ''file''
   \<and> analysis_pass (example_externals (Inl ExternalError))
       (Arr1 [1, 1, 1, 1, 1, 1]) 4 example_config ''file'' Hf [] ()
     = Inr ([1, 1, 1, 1, 1, 1], 2, example_engine Hf None 2 (Some (Num (6 / 10))),
            example_alert, example_windows)
   \<and> ir_is_speech (ws_result (hd example_windows))
   \<and> fl_le (Num (cfg_alert_threshold example_config)) (ir_p_fake (ws_result (hd example_windows)))
   \<and> cfg_alert_hold_sec example_config = 3
   \<and> (\<exists>res. analyze_audio (example_externals (Inl ExternalError))
                (Arr1 [1, 1, 1, 1, 1, 1]) 4 example_config ''file'' ''clip.wav'' Hf [] () []
              = Inr res
            \<and> ar_windows res = example_windows
            \<and> as_alert_segments (ar_summary res) = [\<lparr>start_sec = 1 / 2, end_sec = 3 / 2\<rparr>])"
proof -
  have low: "str_lower ''file'' = ''file''"
    by (simp add: str_lower_def ascii_lower_def)
  have w: "ir_is_speech (ws_result (hd example_windows))"
    "fl_le (Num (cfg_alert_threshold example_config)) (ir_p_fake (ws_result (hd example_windows)))"
    "cfg_alert_hold_sec example_config = 3"
    by (simp_all add: example_windows_def example_result_fields example_config_def fl_le_def)
  have seg: "tracked_segments
       (AlertTracker_init (cfg_alert_threshold example_config)
          (min (cfg_alert_hold_sec example_config) (cfg_hop_sec example_config))
          (cfg_hop_sec example_config))
       (map (alert_call True) example_windows) (ws_t_end (last example_windows))
     = [\<lparr>start_sec = 1 / 2, end_sec = 3 / 2\<rparr>]"
    by (simp add: tracked_segments_def finalize_def close_segment_def update_def
        AlertTracker_init_def alert_call_def example_windows_def example_result_fields
        example_config_def fl_le_def Let_def)
  from file_mode_alerts [OF low example_pass [of "Inl ExternalError"], of "''clip.wav''" "[]"]
  obtain res where "analyze_audio (example_externals (Inl ExternalError))
        (Arr1 [1, 1, 1, 1, 1, 1]) 4 example_config ''file'' ''clip.wav'' Hf [] () [] = Inr res"
    "ar_windows res = example_windows"
    "as_alert_segments (ar_summary res) = [\<lparr>start_sec = 1 / 2, end_sec = 3 / 2\<rparr>]"
    unfolding seg by blast
  then show ?thesis
    using low example_pass w by blast
qed

end
